theory Spec2Isabelle
  imports Main "HOL-Library.Sublist"
begin

section \<open>Errors\<close>

text \<open>
  Go's \<^verbatim>\<open>error\<close> values. The four sentinels \<^verbatim>\<open>errNeedSandboxID\<close>,
  \<^verbatim>\<open>errNeedContainerID\<close>, \<^verbatim>\<open>errNeedFile\<close> and \<^verbatim>\<open>errInvalidResource\<close> are package
  variables used by \<^verbatim>\<open>filesystem.go\<close>; \<open>ErrorString\<close> is what \<^verbatim>\<open>errors.New\<close> and
  \<^verbatim>\<open>fmt.Errorf\<close> build (\<open>Errorf\<close> when the format prints another error);
  \<open>PathError\<close> is the error of a failed \<^verbatim>\<open>os\<close> call;
  \<open>SyntaxError\<close> is the error of a failed \<^verbatim>\<open>json.Unmarshal\<close>.
\<close>

datatype errno = ENOENT | ENOTDIR | EISDIR | EIO

datatype error =
    errNeedSandboxID
  | errNeedContainerID
  | errNeedFile
  | errInvalidResource
  | ErrorString string
  | Errorf string error
  | PathError errno
  | SyntaxError

type_synonym bytes = string

section \<open>agent.go\<close>

type_synonym AgentType = string

definition NoopAgentType :: AgentType where
  "NoopAgentType = ''noop''"

definition HyperstartAgent :: AgentType where
  "HyperstartAgent = ''hyperstart''"

definition KataContainersAgent :: AgentType where
  "KataContainersAgent = ''kata''"

text \<open>
  \<^verbatim>\<open>func (agentType *AgentType) Set(value string) error\<close>: the receiver is passed in
  and returned, updated on the three known strings and untouched otherwise.
\<close>

definition AgentType_Set :: "AgentType \<Rightarrow> string \<Rightarrow> error option \<times> AgentType" where
  "AgentType_Set agentType val =
     (if val = ''noop'' then (None, NoopAgentType)
      else if val = ''hyperstart'' then (None, HyperstartAgent)
      else if val = ''kata'' then (None, KataContainersAgent)
      else (Some (ErrorString (''Unknown agent type '' @ val)), agentType))"

definition AgentType_String :: "AgentType \<Rightarrow> string" where
  "AgentType_String agentType =
     (if agentType = NoopAgentType then NoopAgentType
      else if agentType = HyperstartAgent then HyperstartAgent
      else if agentType = KataContainersAgent then KataContainersAgent
      else [])"

text \<open>
  The dynamic type of the value behind the \<^verbatim>\<open>agent\<close> interface: \<^verbatim>\<open>newAgent\<close> builds
  \<^verbatim>\<open>&noopAgent{}\<close>, \<^verbatim>\<open>&hyper{}\<close> or \<^verbatim>\<open>&kataAgent{}\<close>, each a pointer to a zero struct.
\<close>

datatype agentImpl = noopAgent | hyper | kataAgent

definition newAgent :: "AgentType \<Rightarrow> agentImpl" where
  "newAgent agentType =
     (if agentType = NoopAgentType then noopAgent
      else if agentType = HyperstartAgent then hyper
      else if agentType = KataContainersAgent then kataAgent
      else noopAgent)"

text \<open>
  \<^verbatim>\<open>newAgentConfig\<close> returns an \<^verbatim>\<open>interface{}\<close>: nil, the decoded configuration, or the
  error of \<^verbatim>\<open>mapstructure.Decode\<close> (returned as a value). The decoders belong to an
  external library and are parameters.
\<close>

datatype ('h, 'k) agentConfig =
    NilConfig
  | DecodeError error
  | HyperConfig 'h
  | KataAgentConfig 'k

definition newAgentConfig ::
  "('c \<Rightarrow> error + 'h) \<Rightarrow> ('c \<Rightarrow> error + 'k) \<Rightarrow> AgentType \<Rightarrow> 'c \<Rightarrow> ('h, 'k) agentConfig" where
  "newAgentConfig decodeHyper decodeKata agentType agentConfig =
     (if agentType = NoopAgentType then NilConfig
      else if agentType = HyperstartAgent then
        (case decodeHyper agentConfig of Inl err \<Rightarrow> DecodeError err | Inr c \<Rightarrow> HyperConfig c)
      else if agentType = KataContainersAgent then
        (case decodeKata agentConfig of Inl err \<Rightarrow> DecodeError err | Inr c \<Rightarrow> KataAgentConfig c)
      else NilConfig)"

text \<open>
  A call of a method of the \<^verbatim>\<open>agent\<close> interface, one constructor for each method the
  interface declares in \<^verbatim>\<open>agent.go\<close>. Sandboxes, containers and processes are named
  by their ids; a configuration, a command, resource limits and listing options are
  strings and string lists.
\<close>

datatype agentCall =
    Init string string
  | Capabilities
  | Check
  | Disconnect
  | CreateSandbox string
  | Exec string string "string list"
  | StartSandbox string
  | StopSandbox string
  | CleanupSandbox string
  | CreateContainer string string
  | StartContainer string string
  | StopContainer string string
  | SignalProcess string string int bool
  | WinsizeProcess string string nat nat
  | WriteProcessStdin string string bytes
  | CloseProcessStdin string string
  | ReadProcessStdout string string bytes
  | ReadProcessStderr string string bytes
  | ProcessListContainer string string string "string list"
  | UpdateContainer string string string
  | WaitProcess string string
  | OnlineCPUMem nat
  | StatsContainer string string
  | PauseContainer string string
  | ResumeContainer string string

text \<open>
  Modelled from the spec: the methods of the no-op agent (\<^verbatim>\<open>noop_agent.go\<close> is missing
  from the sources). The spec names this variant a no-op agent, for testing: each
  method of the interface returns without an error and leaves the guest, whose state
  is \<open>'g\<close>, as it is. What a method returns beside its error is left out.
\<close>

definition noopAgent_call :: "agentCall \<Rightarrow> 'g \<Rightarrow> error option \<times> 'g" where
  "noopAgent_call c g = (None, g)"

text \<open>
  A call through the \<^verbatim>\<open>agent\<close> interface runs the method of the value's dynamic type.
  The hyperstart and the kata agent talk to the guest; their methods are parameters.
\<close>

definition agent_call ::
  "(agentCall \<Rightarrow> 'g \<Rightarrow> error option \<times> 'g) \<Rightarrow> (agentCall \<Rightarrow> 'g \<Rightarrow> error option \<times> 'g)
     \<Rightarrow> agentImpl \<Rightarrow> agentCall \<Rightarrow> 'g \<Rightarrow> error option \<times> 'g" where
  "agent_call hyperCall kataCall a c g =
     (case a of
        noopAgent \<Rightarrow> noopAgent_call c g
      | hyper \<Rightarrow> hyperCall c g
      | kataAgent \<Rightarrow> kataCall c g)"

text \<open>
  The four methods of the \<^verbatim>\<open>agent\<close> interface that \<^verbatim>\<open>iostream.go\<close> calls. An agent
  talks to the guest, so each method takes the guest's state \<open>'g\<close> and returns it; the
  container is named by its id. A read is given the caller's buffer and returns it
  filled.
\<close>

record 'g agent =
  writeProcessStdin :: "string \<Rightarrow> string \<Rightarrow> bytes \<Rightarrow> 'g \<Rightarrow> (int \<times> error option) \<times> 'g"
  closeProcessStdin :: "string \<Rightarrow> string \<Rightarrow> 'g \<Rightarrow> error option \<times> 'g"
  readProcessStdout :: "string \<Rightarrow> string \<Rightarrow> bytes \<Rightarrow> 'g \<Rightarrow> (bytes \<times> int \<times> error option) \<times> 'g"
  readProcessStderr :: "string \<Rightarrow> string \<Rightarrow> bytes \<Rightarrow> 'g \<Rightarrow> (bytes \<times> int \<times> error option) \<times> 'g"

section \<open>iostream.go\<close>

text \<open>
  \<^verbatim>\<open>type iostream struct { sandbox *Sandbox; container *Container; process string;
  closed bool }\<close>. The sandbox and the container are named by their ids.
\<close>

record iostream =
  sandbox :: string
  container :: string
  process :: string
  closed :: bool

text \<open>
  \<^verbatim>\<open>newIOStream\<close> returns a pointer, and the three handle types embed that pointer
  (\<^verbatim>\<open>type stdinStream struct { *iostream }\<close>), so the structs live in a store: a list
  of \<open>iostream\<close> records, a pointer being an index into it. The world is that store
  together with the state of the guest the sandbox's agent talks to.
\<close>

record 'g world =
  heap :: "iostream list"
  guest :: 'g

datatype stdinStream = stdinStream nat

datatype stdoutStream = stdoutStream nat

datatype stderrStream = stderrStream nat

definition deref :: "'g world \<Rightarrow> nat \<Rightarrow> iostream option" where
  "deref w p = (if p < length (heap w) then Some (heap w ! p) else None)"

definition newIOStream :: "string \<Rightarrow> string \<Rightarrow> string \<Rightarrow> 'g world \<Rightarrow> nat \<times> 'g world" where
  "newIOStream s c proc w =
     (length (heap w),
      w\<lparr>heap := heap w @ [\<lparr>sandbox = s, container = c, process = proc, closed = False\<rparr>]\<rparr>)"

definition stdin :: "nat \<Rightarrow> stdinStream" where
  "stdin s = stdinStream s"

definition stdout :: "nat \<Rightarrow> stdoutStream" where
  "stdout s = stdoutStream s"

definition stderr :: "nat \<Rightarrow> stderrStream" where
  "stderr s = stderrStream s"

definition streamClosed :: error where
  "streamClosed = ErrorString ''stream closed''"

text \<open>
  What a method answers when its handle points outside the store. The program cannot
  build such a handle (every pointer comes from \<^verbatim>\<open>newIOStream\<close>); Go would panic on the
  nil dereference.
\<close>

definition nilDereference :: error where
  "nilDereference = ErrorString ''invalid memory address or nil pointer dereference''"

fun stdinStream_Write ::
  "'g agent \<Rightarrow> stdinStream \<Rightarrow> bytes \<Rightarrow> 'g world \<Rightarrow> (int \<times> error option) \<times> 'g world" where
  "stdinStream_Write ag (stdinStream p) data w =
     (case deref w p of
        None \<Rightarrow> ((0, Some nilDereference), w)
      | Some s \<Rightarrow>
          if closed s then ((0, Some streamClosed), w)
          else (case writeProcessStdin ag (container s) (process s) data (guest w) of
                  (res, g') \<Rightarrow> (res, w\<lparr>guest := g'\<rparr>)))"

fun stdinStream_Close :: "'g agent \<Rightarrow> stdinStream \<Rightarrow> 'g world \<Rightarrow> error option \<times> 'g world" where
  "stdinStream_Close ag (stdinStream p) w =
     (case deref w p of
        None \<Rightarrow> (Some nilDereference, w)
      | Some s \<Rightarrow>
          if closed s then (Some streamClosed, w)
          else (case closeProcessStdin ag (container s) (process s) (guest w) of
                  (err, g') \<Rightarrow>
                    if err = None
                    then (err, w\<lparr>heap := (heap w)[p := s\<lparr>closed := True\<rparr>], guest := g'\<rparr>)
                    else (err, w\<lparr>guest := g'\<rparr>)))"

fun stdoutStream_Read ::
  "'g agent \<Rightarrow> stdoutStream \<Rightarrow> bytes \<Rightarrow> 'g world \<Rightarrow> (bytes \<times> int \<times> error option) \<times> 'g world" where
  "stdoutStream_Read ag (stdoutStream p) data w =
     (case deref w p of
        None \<Rightarrow> ((data, 0, Some nilDereference), w)
      | Some s \<Rightarrow>
          if closed s then ((data, 0, Some streamClosed), w)
          else (case readProcessStdout ag (container s) (process s) data (guest w) of
                  (res, g') \<Rightarrow> (res, w\<lparr>guest := g'\<rparr>)))"

fun stderrStream_Read ::
  "'g agent \<Rightarrow> stderrStream \<Rightarrow> bytes \<Rightarrow> 'g world \<Rightarrow> (bytes \<times> int \<times> error option) \<times> 'g world" where
  "stderrStream_Read ag (stderrStream p) data w =
     (case deref w p of
        None \<Rightarrow> ((data, 0, Some nilDereference), w)
      | Some s \<Rightarrow>
          if closed s then ((data, 0, Some streamClosed), w)
          else (case readProcessStderr ag (container s) (process s) data (guest w) of
                  (res, g') \<Rightarrow> (res, w\<lparr>guest := g'\<rparr>)))"

text \<open>
  Any call a client of \<^verbatim>\<open>iostream.go\<close> can make, and the world after a sequence of
  them. This is what "every subsequent call" quantifies over.
\<close>

datatype call =
    NewIOStream string string string
  | Write stdinStream bytes
  | Close stdinStream
  | ReadStdout stdoutStream bytes
  | ReadStderr stderrStream bytes

fun perform :: "'g agent \<Rightarrow> 'g world \<Rightarrow> call \<Rightarrow> 'g world" where
  "perform ag w (NewIOStream s c proc) = snd (newIOStream s c proc w)"
| "perform ag w (Write h data) = snd (stdinStream_Write ag h data w)"
| "perform ag w (Close h) = snd (stdinStream_Close ag h w)"
| "perform ag w (ReadStdout h data) = snd (stdoutStream_Read ag h data w)"
| "perform ag w (ReadStderr h data) = snd (stderrStream_Read ag h data w)"

definition performAll :: "'g agent \<Rightarrow> 'g world \<Rightarrow> call list \<Rightarrow> 'g world" where
  "performAll ag w cs = foldl (perform ag) w cs"

text \<open>
  An agent for concrete runs: the guest's state counts the requests served, and the
  guest refuses every request once \<open>limit\<close> of them have been served.
\<close>

definition countingAgent :: "nat \<Rightarrow> nat agent" where
  "countingAgent limit =
     \<lparr>writeProcessStdin = (\<lambda>c p data g.
        if g < limit then ((int (length data), None), Suc g)
        else ((0, Some (ErrorString ''guest unreachable'')), g)),
      closeProcessStdin = (\<lambda>c p g.
        if g < limit then (None, Suc g) else (Some (ErrorString ''guest unreachable''), g)),
      readProcessStdout = (\<lambda>c p data g.
        if g < limit then ((data, 0, None), Suc g)
        else ((data, 0, Some (ErrorString ''guest unreachable'')), g)),
      readProcessStderr = (\<lambda>c p data g.
        if g < limit then ((data, 0, None), Suc g)
        else ((data, 0, Some (ErrorString ''guest unreachable'')), g))\<rparr>"

section \<open>File paths\<close>

text \<open>
  Both storage roots are absolute, so every path \<^verbatim>\<open>filesystem.go\<close> builds is rooted.
  A cleaned rooted path is the list of its components: \<^verbatim>\<open>/run/vc/sbs\<close> is
  \<open>[''run'', ''vc'', ''sbs'']\<close> and \<^verbatim>\<open>/\<close> is \<open>[]\<close>. Where Go passes a path string
  that may be empty (the URI functions return \<^verbatim>\<open>""\<close> beside an error), the model has a
  \<open>path option\<close>, \<open>None\<close> being the empty string.
\<close>

type_synonym path = "string list"

text \<open>The pieces of a string between its \<^verbatim>\<open>/\<close> separators.\<close>

fun splitPath :: "string \<Rightarrow> string list" where
  "splitPath [] = [[]]"
| "splitPath (c # cs) =
     (if c = CHR ''/'' then [] # splitPath cs
      else (case splitPath cs of [] \<Rightarrow> [[c]] | x # xs \<Rightarrow> (c # x) # xs))"

text \<open>
  \<^verbatim>\<open>filepath.Clean\<close> on a rooted path, one component at a time: an empty component
  (doubled separator) and \<^verbatim>\<open>.\<close> are dropped, \<^verbatim>\<open>..\<close> drops the component before it, and
  at the root \<^verbatim>\<open>/..\<close> is \<^verbatim>\<open>/\<close>.
\<close>

definition cleanStep :: "path \<Rightarrow> string \<Rightarrow> path" where
  "cleanStep p e =
     (if e = [] \<or> e = ''.'' then p
      else if e = ''..'' then butlast p
      else p @ [e])"

text \<open>
  \<^verbatim>\<open>filepath.Join(base, elems...)\<close> for a base that is already a cleaned rooted path:
  the elements are joined with separators and the result is cleaned.
\<close>

definition Join :: "path \<Rightarrow> string list \<Rightarrow> path" where
  "Join base elems = foldl cleanStep base (concat (map splitPath elems))"

definition storagePathSuffix :: string where
  "storagePathSuffix = ''/vc/sbs''"

definition configStoragePath :: path where
  "configStoragePath = Join [] [''/var/lib'', storagePathSuffix]"

definition runStoragePath :: path where
  "runStoragePath = Join [] [''/run'', storagePathSuffix]"

section \<open>The disk and the \<^verbatim>\<open>os\<close> calls\<close>

text \<open>
  The disk maps a path to what is there. The root is a directory and has no entry.
  A call of the operating system can fail for reasons outside the program (an I/O
  error, a full or read-only device): \<open>faults\<close> says which calls do. A call that
  fails leaves the disk as it was. Path lookup comes before the device is touched,
  so a missing file is reported as \<open>ENOENT\<close> whatever the faults are.
\<close>

datatype node = Dir | File bytes

type_synonym disk = "path \<Rightarrow> node option"

datatype syscall =
    MkdirAll path
  | Create path
  | FileWrite path
  | ReadFile path
  | RemoveAll path
  | Stat path

type_synonym faults = "syscall \<Rightarrow> bool"

definition isFile :: "disk \<Rightarrow> path \<Rightarrow> bool" where
  "isFile d p = (case d p of Some (File b) \<Rightarrow> True | _ \<Rightarrow> False)"

definition isDir :: "disk \<Rightarrow> path \<Rightarrow> bool" where
  "isDir d p = (p = [] \<or> d p = Some Dir)"

definition os_MkdirAll :: "faults \<Rightarrow> path option \<Rightarrow> disk \<Rightarrow> error option \<times> disk" where
  "os_MkdirAll flt gp d =
     (case gp of
        None \<Rightarrow> (Some (PathError ENOENT), d)
      | Some p \<Rightarrow>
          if list_ex (isFile d) (prefixes p) then (Some (PathError ENOTDIR), d)
          else if flt (MkdirAll p) then (Some (PathError EIO), d)
          else (None, (\<lambda>q. if q \<noteq> [] \<and> prefix q p then Some Dir else d q)))"

text \<open>\<^verbatim>\<open>os.Create\<close> truncates or creates the file; the handle it returns is the path.\<close>

definition os_Create :: "faults \<Rightarrow> path \<Rightarrow> disk \<Rightarrow> (error + path) \<times> disk" where
  "os_Create flt p d =
     (if p = [] \<or> d p = Some Dir then (Inl (PathError EISDIR), d)
      else if \<not> isDir d (butlast p) then (Inl (PathError ENOENT), d)
      else if flt (Create p) then (Inl (PathError EIO), d)
      else (Inr p, d(p \<mapsto> File [])))"

definition file_Write :: "faults \<Rightarrow> path \<Rightarrow> bytes \<Rightarrow> disk \<Rightarrow> error option \<times> disk" where
  "file_Write flt f b d =
     (case d f of
        Some (File old) \<Rightarrow>
          if flt (FileWrite f) then (Some (PathError EIO), d)
          else (None, d(f \<mapsto> File (old @ b)))
      | _ \<Rightarrow> (Some (PathError ENOENT), d))"

definition ioutil_ReadFile :: "faults \<Rightarrow> path \<Rightarrow> disk \<Rightarrow> error + bytes" where
  "ioutil_ReadFile flt p d =
     (case d p of
        None \<Rightarrow> Inl (PathError (if p = [] then EISDIR else ENOENT))
      | Some Dir \<Rightarrow> Inl (PathError EISDIR)
      | Some (File b) \<Rightarrow> if flt (ReadFile p) then Inl (PathError EIO) else Inr b)"

definition os_RemoveAll :: "faults \<Rightarrow> path \<Rightarrow> disk \<Rightarrow> error option \<times> disk" where
  "os_RemoveAll flt p d =
     (if flt (RemoveAll p) then (Some (PathError EIO), d)
      else (None, (\<lambda>q. if prefix p q then None else d q)))"

definition os_Stat :: "faults \<Rightarrow> path \<Rightarrow> disk \<Rightarrow> error option" where
  "os_Stat flt p d =
     (if p \<noteq> [] \<and> d p = None then Some (PathError ENOENT)
      else if flt (Stat p) then Some (PathError EIO)
      else None)"

section \<open>filesystem.go: resource kinds and their paths\<close>

text \<open>\<^verbatim>\<open>type sandboxResource int\<close>, with the nine kinds numbered by \<^verbatim>\<open>iota\<close>.\<close>

type_synonym sandboxResource = int

definition configFileType :: sandboxResource where
  "configFileType = 0"

definition stateFileType :: sandboxResource where
  "stateFileType = 1"

definition networkFileType :: sandboxResource where
  "networkFileType = 2"

definition hypervisorFileType :: sandboxResource where
  "hypervisorFileType = 3"

definition agentFileType :: sandboxResource where
  "agentFileType = 4"

definition processFileType :: sandboxResource where
  "processFileType = 5"

definition lockFileType :: sandboxResource where
  "lockFileType = 6"

definition mountsFileType :: sandboxResource where
  "mountsFileType = 7"

definition devicesFileType :: sandboxResource where
  "devicesFileType = 8"

definition configFile :: string where
  "configFile = ''config.json''"

definition stateFile :: string where
  "stateFile = ''state.json''"

definition networkFile :: string where
  "networkFile = ''network.json''"

definition hypervisorFile :: string where
  "hypervisorFile = ''hypervisor.json''"

definition agentFile :: string where
  "agentFile = ''agent.json''"

definition processFile :: string where
  "processFile = ''process.json''"

definition lockFileName :: string where
  "lockFileName = ''lock''"

definition mountsFile :: string where
  "mountsFile = ''mounts.json''"

definition devicesFile :: string where
  "devicesFile = ''devices.json''"

definition resourceNeedsContainerID :: "bool \<Rightarrow> sandboxResource \<Rightarrow> bool" where
  "resourceNeedsContainerID sandboxSpecific resource =
     (if resource = lockFileType \<or> resource = networkFileType
         \<or> resource = hypervisorFileType \<or> resource = agentFileType
      then False
      else \<not> sandboxSpecific)"

definition resourceDir :: "bool \<Rightarrow> string \<Rightarrow> string \<Rightarrow> sandboxResource \<Rightarrow> error + path" where
  "resourceDir sandboxSpecific sandboxID containerID resource =
     (if sandboxID = [] then Inl errNeedSandboxID
      else if resourceNeedsContainerID sandboxSpecific resource \<and> containerID = []
      then Inl errNeedContainerID
      else if resource = configFileType
      then Inr (Join configStoragePath [sandboxID, containerID])
      else if resource = stateFileType \<or> resource = networkFileType
          \<or> resource = processFileType \<or> resource = lockFileType
          \<or> resource = mountsFileType \<or> resource = devicesFileType
          \<or> resource = hypervisorFileType \<or> resource = agentFileType
      then Inr (Join runStoragePath [sandboxID, containerID])
      else Inl errInvalidResource)"

text \<open>The file name \<^verbatim>\<open>resourceURI\<close> picks for a kind; \<open>None\<close> is its \<^verbatim>\<open>default\<close> branch.\<close>

definition resourceFilename :: "sandboxResource \<Rightarrow> string option" where
  "resourceFilename resource =
     (if resource = configFileType then Some configFile
      else if resource = stateFileType then Some stateFile
      else if resource = networkFileType then Some networkFile
      else if resource = hypervisorFileType then Some hypervisorFile
      else if resource = agentFileType then Some agentFile
      else if resource = processFileType then Some processFile
      else if resource = lockFileType then Some lockFileName
      else if resource = mountsFileType then Some mountsFile
      else if resource = devicesFileType then Some devicesFile
      else None)"

text \<open>
  The URI functions return \<^verbatim>\<open>(filePath, dirPath, err)\<close>, both strings empty beside an
  error: \<open>Inr (filePath, dirPath)\<close> or \<open>Inl err\<close>.
\<close>

definition resourceURI ::
  "bool \<Rightarrow> string \<Rightarrow> string \<Rightarrow> sandboxResource \<Rightarrow> error + (path \<times> path)" where
  "resourceURI sandboxSpecific sandboxID containerID resource =
     (if sandboxID = [] then Inl errNeedSandboxID
      else (case resourceDir sandboxSpecific sandboxID containerID resource of
              Inl err \<Rightarrow> Inl err
            | Inr dirPath \<Rightarrow>
                (case resourceFilename resource of
                   None \<Rightarrow> Inl errInvalidResource
                 | Some filename \<Rightarrow> Inr (Join dirPath [filename], dirPath))))"

definition containerURI ::
  "string \<Rightarrow> string \<Rightarrow> sandboxResource \<Rightarrow> error + (path \<times> path)" where
  "containerURI sandboxID containerID resource =
     (if sandboxID = [] then Inl errNeedSandboxID
      else if containerID = [] then Inl errNeedContainerID
      else resourceURI False sandboxID containerID resource)"

definition sandboxURI :: "string \<Rightarrow> sandboxResource \<Rightarrow> error + (path \<times> path)" where
  "sandboxURI sandboxID resource = resourceURI True sandboxID [] resource"

text \<open>The first and the second string of a URI result whose error the caller drops.\<close>

definition uriFile :: "error + (path \<times> path) \<Rightarrow> path option" where
  "uriFile r = (case r of Inl err \<Rightarrow> None | Inr (filePath, dirPath) \<Rightarrow> Some filePath)"

definition uriDir :: "error + (path \<times> path) \<Rightarrow> path option" where
  "uriDir r = (case r of Inl err \<Rightarrow> None | Inr (filePath, dirPath) \<Rightarrow> Some dirPath)"

definition commonResourceChecks ::
  "bool \<Rightarrow> string \<Rightarrow> string \<Rightarrow> sandboxResource \<Rightarrow> error option" where
  "commonResourceChecks sandboxSpecific sandboxID containerID resource =
     (if sandboxID = [] then Some errNeedSandboxID
      else if resourceNeedsContainerID sandboxSpecific resource \<and> containerID = []
      then Some errNeedContainerID
      else if resource = configFileType \<or> resource = stateFileType
          \<or> resource = networkFileType \<or> resource = hypervisorFileType
          \<or> resource = agentFileType \<or> resource = processFileType
          \<or> resource = mountsFileType \<or> resource = devicesFileType
      then None
      else Some errInvalidResource)"

section \<open>filesystem.go: the stored values and their encoding\<close>

text \<open>
  The device variants. \<^verbatim>\<open>api.Device\<close> is an interface, so a stored collection may
  hold a device of any implementing type: \<open>OtherDevice t x\<close> is one whose
  \<^verbatim>\<open>DeviceType()\<close> is \<open>t\<close>. The struct contents are of a type \<open>'v\<close> left open.
\<close>

datatype 'v Device =
    VFIODevice 'v
  | BlockDevice 'v
  | GenericDevice 'v
  | OtherDevice string 'v

text \<open>
  The values \<^verbatim>\<open>storeResource\<close> tells apart in its type switch. \<open>OtherData\<close> is a
  value of any other type (the \<^verbatim>\<open>default\<close> branch).
\<close>

datatype 'v data =
    SandboxConfig 'v
  | ContainerConfig 'v
  | State 'v
  | NetworkNamespace 'v
  | Process 'v
  | Mounts "'v list"
  | Devices "'v Device list"
  | OtherData 'v

text \<open>
  The type a fetch decodes into: the type behind the pointer that \<^verbatim>\<open>fetchResource\<close>
  is given as its \<^verbatim>\<open>data\<close> argument.
\<close>

datatype target =
    SandboxConfigT
  | ContainerConfigT
  | StateT
  | NetworkNamespaceT
  | ProcessT
  | MountsT
  | DevicesT
  | OtherT

fun typeOf :: "'v data \<Rightarrow> target" where
  "typeOf (SandboxConfig x) = SandboxConfigT"
| "typeOf (ContainerConfig x) = ContainerConfigT"
| "typeOf (State x) = StateT"
| "typeOf (NetworkNamespace x) = NetworkNamespaceT"
| "typeOf (Process x) = ProcessT"
| "typeOf (Mounts x) = MountsT"
| "typeOf (Devices x) = DevicesT"
| "typeOf (OtherData x) = OtherT"

record TypedDevice =
  Type :: string
  Data :: bytes

text \<open>
  The three type tags \<^verbatim>\<open>config.DeviceVFIO\<close>, \<^verbatim>\<open>config.DeviceBlock\<close> and
  \<^verbatim>\<open>config.DeviceGeneric\<close> are constants of package \<^verbatim>\<open>device/config\<close>; they are
  parameters here.
\<close>

record deviceTypes =
  DeviceVFIO :: string
  DeviceBlock :: string
  DeviceGeneric :: string

text \<open>
  Modelled from the spec: the \<^verbatim>\<open>DeviceType()\<close> methods of the driver types
  (package \<^verbatim>\<open>device/drivers\<close>) are missing. Each of the three variants carries its own
  tag; any other implementation carries the tag it was built with.
\<close>

fun DeviceType :: "deviceTypes \<Rightarrow> 'v Device \<Rightarrow> string" where
  "DeviceType tags (VFIODevice x) = DeviceVFIO tags"
| "DeviceType tags (BlockDevice x) = DeviceBlock tags"
| "DeviceType tags (GenericDevice x) = DeviceGeneric tags"
| "DeviceType tags (OtherDevice t x) = t"

text \<open>
  \<^verbatim>\<open>encoding/json\<close> is a library outside the repository; its calls are parameters:
  \<open>Marshal\<close> is \<^verbatim>\<open>json.Marshal(data)\<close> in \<^verbatim>\<open>storeFile\<close>, \<open>MarshalDevice\<close> is
  \<^verbatim>\<open>json.Marshal(d)\<close> on one device, \<open>MarshalTyped\<close> is \<^verbatim>\<open>json.Marshal(typedDevices)\<close>,
  \<open>Unmarshal t\<close> is \<^verbatim>\<open>json.Unmarshal(fileData, data)\<close> into a value of type \<open>t\<close>,
  \<open>UnmarshalTyped\<close> decodes into \<^verbatim>\<open>[]TypedDevice\<close> and the last three decode one
  envelope's \<^verbatim>\<open>Data\<close> into the driver struct.
\<close>

record 'v json =
  Marshal :: "'v data \<Rightarrow> error + bytes"
  MarshalDevice :: "'v Device \<Rightarrow> error + bytes"
  MarshalTyped :: "TypedDevice list \<Rightarrow> error + bytes"
  Unmarshal :: "target \<Rightarrow> bytes \<Rightarrow> error + 'v data"
  UnmarshalTyped :: "bytes \<Rightarrow> error + TypedDevice list"
  UnmarshalVFIO :: "bytes \<Rightarrow> error + 'v"
  UnmarshalBlock :: "bytes \<Rightarrow> error + 'v"
  UnmarshalGeneric :: "bytes \<Rightarrow> error + 'v"

section \<open>filesystem.go: storing and fetching files\<close>

definition storeFile ::
  "faults \<Rightarrow> 'v json \<Rightarrow> path option \<Rightarrow> 'v data \<Rightarrow> disk \<Rightarrow> error option \<times> disk" where
  "storeFile flt js file dat d =
     (case file of
        None \<Rightarrow> (Some errNeedFile, d)
      | Some p \<Rightarrow>
          (case os_Create flt p d of
             (Inl err, d1) \<Rightarrow> (Some err, d1)
           | (Inr f, d1) \<Rightarrow>
               (case Marshal js dat of
                  Inl err \<Rightarrow> (Some (Errorf ''Could not marshall data: %s'' err), d1)
                | Inr jsonOut \<Rightarrow>
                    (case file_Write flt f jsonOut d1 of
                       (werr, d2) \<Rightarrow> (None, d2)))))"

text \<open>
  The envelope of one device: \<^verbatim>\<open>tempJSON, _ := json.Marshal(d)\<close> drops the error, and
  \<^verbatim>\<open>tempJSON\<close> is then nil.
\<close>

definition typedDevice :: "'v json \<Rightarrow> deviceTypes \<Rightarrow> 'v Device \<Rightarrow> TypedDevice" where
  "typedDevice js tags dev =
     \<lparr>Type = DeviceType tags dev,
      Data = (case MarshalDevice js dev of Inl err \<Rightarrow> [] | Inr tempJSON \<Rightarrow> tempJSON)\<rparr>"

definition storeDeviceFile ::
  "faults \<Rightarrow> 'v json \<Rightarrow> deviceTypes \<Rightarrow> path option \<Rightarrow> 'v data \<Rightarrow> disk
     \<Rightarrow> error option \<times> disk" where
  "storeDeviceFile flt js tags file dat d =
     (case file of
        None \<Rightarrow> (Some errNeedFile, d)
      | Some p \<Rightarrow>
          (case os_Create flt p d of
             (Inl err, d1) \<Rightarrow> (Some err, d1)
           | (Inr f, d1) \<Rightarrow>
               (case dat of
                  Devices devices \<Rightarrow>
                    (case MarshalTyped js (map (typedDevice js tags) devices) of
                       Inl err \<Rightarrow> (Some (Errorf ''Could not marshal devices: %s'' err), d1)
                     | Inr jsonOut \<Rightarrow>
                         (case file_Write flt f jsonOut d1 of
                            (Some err, d2) \<Rightarrow> (Some err, d2)
                          | (None, d2) \<Rightarrow> (None, d2)))
                | _ \<Rightarrow>
                    (Some (ErrorString ''Incorrect data type received, Expected []Device''),
                     d1))))"

definition unknownDeviceType :: error where
  "unknownDeviceType = ErrorString ''Unknown device type, could not unmarshal''"

text \<open>The body of the loop of \<^verbatim>\<open>fetchDeviceFile\<close>: the switch on one envelope's tag.\<close>

definition decodeDevice :: "'v json \<Rightarrow> deviceTypes \<Rightarrow> TypedDevice \<Rightarrow> error + 'v Device" where
  "decodeDevice js tags td =
     (if Type td = DeviceVFIO tags then
        (case UnmarshalVFIO js (Data td) of Inl err \<Rightarrow> Inl err | Inr device \<Rightarrow> Inr (VFIODevice device))
      else if Type td = DeviceBlock tags then
        (case UnmarshalBlock js (Data td) of Inl err \<Rightarrow> Inl err | Inr device \<Rightarrow> Inr (BlockDevice device))
      else if Type td = DeviceGeneric tags then
        (case UnmarshalGeneric js (Data td) of Inl err \<Rightarrow> Inl err | Inr device \<Rightarrow> Inr (GenericDevice device))
      else Inl unknownDeviceType)"

text \<open>The loop itself, \<open>tempDevices\<close> being the slice it appends to.\<close>

fun decodeDevices ::
  "'v json \<Rightarrow> deviceTypes \<Rightarrow> TypedDevice list \<Rightarrow> 'v Device list \<Rightarrow> error + 'v Device list" where
  "decodeDevices js tags [] tempDevices = Inr tempDevices"
| "decodeDevices js tags (td # tds) tempDevices =
     (case decodeDevice js tags td of
        Inl err \<Rightarrow> Inl err
      | Inr device \<Rightarrow> decodeDevices js tags tds (tempDevices @ [device]))"

definition fetchDeviceFile :: "'v json \<Rightarrow> deviceTypes \<Rightarrow> bytes \<Rightarrow> error + 'v Device list" where
  "fetchDeviceFile js tags fileData =
     (case UnmarshalTyped js fileData of
        Inl err \<Rightarrow> Inl err
      | Inr typedDevices \<Rightarrow> decodeDevices js tags typedDevices [])"

definition fetchFile ::
  "faults \<Rightarrow> 'v json \<Rightarrow> deviceTypes \<Rightarrow> path option \<Rightarrow> sandboxResource \<Rightarrow> target \<Rightarrow> disk
     \<Rightarrow> error + 'v data" where
  "fetchFile flt js tags file resource t d =
     (case file of
        None \<Rightarrow> Inl errNeedFile
      | Some p \<Rightarrow>
          (case ioutil_ReadFile flt p d of
             Inl err \<Rightarrow> Inl err
           | Inr fileData \<Rightarrow>
               if resource = devicesFileType then
                 (if t = DevicesT then
                    (case fetchDeviceFile js tags fileData of
                       Inl err \<Rightarrow> Inl err
                     | Inr devices \<Rightarrow> Inr (Devices devices))
                  else Inl (ErrorString ''Could not cast %v into *[]Device type''))
               else Unmarshal js t fileData))"

section \<open>filesystem.go: storing and fetching resources\<close>

definition storeSandboxAndContainerConfigResource ::
  "faults \<Rightarrow> 'v json \<Rightarrow> deviceTypes \<Rightarrow> bool \<Rightarrow> string \<Rightarrow> string \<Rightarrow> sandboxResource \<Rightarrow> 'v data
     \<Rightarrow> disk \<Rightarrow> error option \<times> disk" where
  "storeSandboxAndContainerConfigResource flt js tags sandboxSpecific sandboxID containerID resource file d =
     (if resource \<noteq> configFileType then (Some errInvalidResource, d)
      else (case resourceURI sandboxSpecific sandboxID containerID configFileType of
              Inl err \<Rightarrow> (Some err, d)
            | Inr (filePath, dirPath) \<Rightarrow> storeFile flt js (Some filePath) file d))"

definition storeStateResource ::
  "faults \<Rightarrow> 'v json \<Rightarrow> deviceTypes \<Rightarrow> bool \<Rightarrow> string \<Rightarrow> string \<Rightarrow> sandboxResource \<Rightarrow> 'v data
     \<Rightarrow> disk \<Rightarrow> error option \<times> disk" where
  "storeStateResource flt js tags sandboxSpecific sandboxID containerID resource file d =
     (if resource \<noteq> stateFileType then (Some errInvalidResource, d)
      else (case resourceURI sandboxSpecific sandboxID containerID stateFileType of
              Inl err \<Rightarrow> (Some err, d)
            | Inr (filePath, dirPath) \<Rightarrow> storeFile flt js (Some filePath) file d))"

text \<open>The network is a sandbox-only resource: its path is resolved with \<^verbatim>\<open>true\<close>.\<close>

definition storeNetworkResource ::
  "faults \<Rightarrow> 'v json \<Rightarrow> deviceTypes \<Rightarrow> bool \<Rightarrow> string \<Rightarrow> string \<Rightarrow> sandboxResource \<Rightarrow> 'v data
     \<Rightarrow> disk \<Rightarrow> error option \<times> disk" where
  "storeNetworkResource flt js tags sandboxSpecific sandboxID containerID resource file d =
     (if resource \<noteq> networkFileType then (Some errInvalidResource, d)
      else (case resourceURI True sandboxID containerID networkFileType of
              Inl err \<Rightarrow> (Some err, d)
            | Inr (filePath, dirPath) \<Rightarrow> storeFile flt js (Some filePath) file d))"

definition storeProcessResource ::
  "faults \<Rightarrow> 'v json \<Rightarrow> deviceTypes \<Rightarrow> bool \<Rightarrow> string \<Rightarrow> string \<Rightarrow> sandboxResource \<Rightarrow> 'v data
     \<Rightarrow> disk \<Rightarrow> error option \<times> disk" where
  "storeProcessResource flt js tags sandboxSpecific sandboxID containerID resource file d =
     (if resource \<noteq> processFileType then (Some errInvalidResource, d)
      else (case resourceURI sandboxSpecific sandboxID containerID processFileType of
              Inl err \<Rightarrow> (Some err, d)
            | Inr (filePath, dirPath) \<Rightarrow> storeFile flt js (Some filePath) file d))"

definition storeMountResource ::
  "faults \<Rightarrow> 'v json \<Rightarrow> deviceTypes \<Rightarrow> bool \<Rightarrow> string \<Rightarrow> string \<Rightarrow> sandboxResource \<Rightarrow> 'v data
     \<Rightarrow> disk \<Rightarrow> error option \<times> disk" where
  "storeMountResource flt js tags sandboxSpecific sandboxID containerID resource file d =
     (if resource \<noteq> mountsFileType then (Some errInvalidResource, d)
      else (case resourceURI sandboxSpecific sandboxID containerID mountsFileType of
              Inl err \<Rightarrow> (Some err, d)
            | Inr (filePath, dirPath) \<Rightarrow> storeFile flt js (Some filePath) file d))"

definition storeDeviceResource ::
  "faults \<Rightarrow> 'v json \<Rightarrow> deviceTypes \<Rightarrow> bool \<Rightarrow> string \<Rightarrow> string \<Rightarrow> sandboxResource \<Rightarrow> 'v data
     \<Rightarrow> disk \<Rightarrow> error option \<times> disk" where
  "storeDeviceResource flt js tags sandboxSpecific sandboxID containerID resource file d =
     (if resource \<noteq> devicesFileType then (Some errInvalidResource, d)
      else (case resourceURI sandboxSpecific sandboxID containerID devicesFileType of
              Inl err \<Rightarrow> (Some err, d)
            | Inr (filePath, dirPath) \<Rightarrow> storeDeviceFile flt js tags (Some filePath) file d))"

definition storeResource ::
  "faults \<Rightarrow> 'v json \<Rightarrow> deviceTypes \<Rightarrow> bool \<Rightarrow> string \<Rightarrow> string \<Rightarrow> sandboxResource \<Rightarrow> 'v data
     \<Rightarrow> disk \<Rightarrow> error option \<times> disk" where
  "storeResource flt js tags sandboxSpecific sandboxID containerID resource dat d =
     (case commonResourceChecks sandboxSpecific sandboxID containerID resource of
        Some err \<Rightarrow> (Some err, d)
      | None \<Rightarrow>
          (case dat of
             SandboxConfig x \<Rightarrow>
               storeSandboxAndContainerConfigResource flt js tags sandboxSpecific sandboxID
                 containerID resource dat d
           | ContainerConfig x \<Rightarrow>
               storeSandboxAndContainerConfigResource flt js tags sandboxSpecific sandboxID
                 containerID resource dat d
           | State x \<Rightarrow>
               storeStateResource flt js tags sandboxSpecific sandboxID containerID resource dat d
           | NetworkNamespace x \<Rightarrow>
               storeNetworkResource flt js tags sandboxSpecific sandboxID containerID resource dat d
           | Process x \<Rightarrow>
               storeProcessResource flt js tags sandboxSpecific sandboxID containerID resource dat d
           | Mounts x \<Rightarrow>
               storeMountResource flt js tags sandboxSpecific sandboxID containerID resource dat d
           | Devices x \<Rightarrow>
               storeDeviceResource flt js tags sandboxSpecific sandboxID containerID resource dat d
           | OtherData x \<Rightarrow> (Some (ErrorString ''Invalid resource data type''), d)))"

definition fetchResource ::
  "faults \<Rightarrow> 'v json \<Rightarrow> deviceTypes \<Rightarrow> bool \<Rightarrow> string \<Rightarrow> string \<Rightarrow> sandboxResource \<Rightarrow> target
     \<Rightarrow> disk \<Rightarrow> error + 'v data" where
  "fetchResource flt js tags sandboxSpecific sandboxID containerID resource t d =
     (case commonResourceChecks sandboxSpecific sandboxID containerID resource of
        Some err \<Rightarrow> Inl err
      | None \<Rightarrow>
          (case resourceURI sandboxSpecific sandboxID containerID resource of
             Inl err \<Rightarrow> Inl err
           | Inr (filePath, dirPath) \<Rightarrow> fetchFile flt js tags (Some filePath) resource t d))"

definition storeSandboxResource ::
  "faults \<Rightarrow> 'v json \<Rightarrow> deviceTypes \<Rightarrow> string \<Rightarrow> sandboxResource \<Rightarrow> 'v data \<Rightarrow> disk
     \<Rightarrow> error option \<times> disk" where
  "storeSandboxResource flt js tags sandboxID resource dat d =
     storeResource flt js tags True sandboxID [] resource dat d"

definition storeContainerResource ::
  "faults \<Rightarrow> 'v json \<Rightarrow> deviceTypes \<Rightarrow> string \<Rightarrow> string \<Rightarrow> sandboxResource \<Rightarrow> 'v data \<Rightarrow> disk
     \<Rightarrow> error option \<times> disk" where
  "storeContainerResource flt js tags sandboxID containerID resource dat d =
     (if sandboxID = [] then (Some errNeedSandboxID, d)
      else if containerID = [] then (Some errNeedContainerID, d)
      else storeResource flt js tags False sandboxID containerID resource dat d)"

definition storeHypervisorState ::
  "faults \<Rightarrow> 'v json \<Rightarrow> string \<Rightarrow> 'v data \<Rightarrow> disk \<Rightarrow> error option \<times> disk" where
  "storeHypervisorState flt js sandboxID state d =
     (case resourceURI True sandboxID [] hypervisorFileType of
        Inl err \<Rightarrow> (Some err, d)
      | Inr (filePath, dirPath) \<Rightarrow> storeFile flt js (Some filePath) state d)"

definition storeAgentState ::
  "faults \<Rightarrow> 'v json \<Rightarrow> string \<Rightarrow> 'v data \<Rightarrow> disk \<Rightarrow> error option \<times> disk" where
  "storeAgentState flt js sandboxID state d =
     (case resourceURI True sandboxID [] agentFileType of
        Inl err \<Rightarrow> (Some err, d)
      | Inr (filePath, dirPath) \<Rightarrow> storeFile flt js (Some filePath) state d)"

section \<open>filesystem.go: deleting and creating a sandbox's resources\<close>

text \<open>
  The loop of \<^verbatim>\<open>deleteSandboxResources\<close> over the kinds, and the function itself. Its
  argument is a slice that the function compares with nil: \<open>None\<close> is the nil slice,
  \<open>Some []\<close> an empty one.
\<close>

fun removeResourceDirs ::
  "faults \<Rightarrow> string \<Rightarrow> sandboxResource list \<Rightarrow> disk \<Rightarrow> error option \<times> disk" where
  "removeResourceDirs flt sandboxID [] d = (None, d)"
| "removeResourceDirs flt sandboxID (resource # resources) d =
     (case sandboxURI sandboxID resource of
        Inl err \<Rightarrow> (Some err, d)
      | Inr (filePath, dir) \<Rightarrow>
          (case os_RemoveAll flt dir d of
             (Some err, d1) \<Rightarrow> (Some err, d1)
           | (None, d1) \<Rightarrow> removeResourceDirs flt sandboxID resources d1))"

definition deleteSandboxResources ::
  "faults \<Rightarrow> string \<Rightarrow> sandboxResource list option \<Rightarrow> disk \<Rightarrow> error option \<times> disk" where
  "deleteSandboxResources flt sandboxID resources d =
     removeResourceDirs flt sandboxID
       (case resources of None \<Rightarrow> [configFileType, stateFileType] | Some rs \<Rightarrow> rs) d"

text \<open>
  \<^verbatim>\<open>createAllResources\<close> reads two fields of the sandbox: its id and its containers,
  each container with an id.
\<close>

record Container =
  id_c :: string

record Sandbox =
  id_s :: string
  containers :: "Container list"

text \<open>
  The first loop: the sandbox's own directories. A failure returns at once, the
  disk as the earlier iterations left it.
\<close>

fun createSandboxDirs ::
  "faults \<Rightarrow> string \<Rightarrow> sandboxResource list \<Rightarrow> disk \<Rightarrow> error option \<times> disk" where
  "createSandboxDirs flt sandboxID [] d = (None, d)"
| "createSandboxDirs flt sandboxID (resource # resources) d =
     (case os_MkdirAll flt (uriDir (sandboxURI sandboxID resource)) d of
        (Some err, d1) \<Rightarrow> (Some err, d1)
      | (None, d1) \<Rightarrow> createSandboxDirs flt sandboxID resources d1)"

text \<open>
  The second loop, inner and outer: the containers' directories. A failure calls
  \<^verbatim>\<open>deleteSandboxResources(sandbox.id, nil)\<close>, drops what that returns, and returns the
  error of \<^verbatim>\<open>MkdirAll\<close>.
\<close>

fun createContainerDirs ::
  "faults \<Rightarrow> string \<Rightarrow> string \<Rightarrow> sandboxResource list \<Rightarrow> disk \<Rightarrow> error option \<times> disk" where
  "createContainerDirs flt sandboxID containerID [] d = (None, d)"
| "createContainerDirs flt sandboxID containerID (resource # resources) d =
     (case os_MkdirAll flt (uriDir (containerURI sandboxID containerID resource)) d of
        (Some err, d1) \<Rightarrow> (Some err, snd (deleteSandboxResources flt sandboxID None d1))
      | (None, d1) \<Rightarrow> createContainerDirs flt sandboxID containerID resources d1)"

fun createAllContainerDirs ::
  "faults \<Rightarrow> string \<Rightarrow> Container list \<Rightarrow> disk \<Rightarrow> error option \<times> disk" where
  "createAllContainerDirs flt sandboxID [] d = (None, d)"
| "createAllContainerDirs flt sandboxID (c # cs) d =
     (case createContainerDirs flt sandboxID (id_c c) [stateFileType, configFileType] d of
        (Some err, d1) \<Rightarrow> (Some err, d1)
      | (None, d1) \<Rightarrow> createAllContainerDirs flt sandboxID cs d1)"

text \<open>The end of the function: the lock file, created if \<^verbatim>\<open>os.Stat\<close> does not find it.\<close>

definition createLockFile :: "faults \<Rightarrow> string \<Rightarrow> disk \<Rightarrow> error option \<times> disk" where
  "createLockFile flt sandboxID d =
     (case sandboxURI sandboxID lockFileType of
        Inl err \<Rightarrow> (Some err, snd (deleteSandboxResources flt sandboxID None d))
      | Inr (sandboxlockFile, dirPath) \<Rightarrow>
          (case os_Stat flt sandboxlockFile d of
             None \<Rightarrow> (None, d)
           | Some serr \<Rightarrow>
               (case os_Create flt sandboxlockFile d of
                  (Inl err, d1) \<Rightarrow> (Some err, snd (deleteSandboxResources flt sandboxID None d1))
                | (Inr lockFile, d1) \<Rightarrow> (None, d1))))"

definition createAllResources :: "faults \<Rightarrow> Sandbox \<Rightarrow> disk \<Rightarrow> error option \<times> disk" where
  "createAllResources flt sb d =
     (case createSandboxDirs flt (id_s sb) [stateFileType, configFileType] d of
        (Some err, d1) \<Rightarrow> (Some err, d1)
      | (None, d1) \<Rightarrow>
          (case createAllContainerDirs flt (id_s sb) (containers sb) d1 of
             (Some err, d2) \<Rightarrow> (Some err, d2)
           | (None, d2) \<Rightarrow> createLockFile flt (id_s sb) d2))"

section \<open>Properties the theorems speak of\<close>

text \<open>
  The device variants that \<^verbatim>\<open>fetchDeviceFile\<close> can build, and the type tags it knows.
\<close>

definition knownDevice :: "'v Device \<Rightarrow> bool" where
  "knownDevice dev = (case dev of OtherDevice t x \<Rightarrow> False | _ \<Rightarrow> True)"

definition knownDevices :: "'v data \<Rightarrow> bool" where
  "knownDevices v = (case v of Devices devs \<Rightarrow> list_all knownDevice devs | _ \<Rightarrow> True)"

definition knownType :: "deviceTypes \<Rightarrow> TypedDevice \<Rightarrow> bool" where
  "knownType tags td =
     (Type td = DeviceVFIO tags \<or> Type td = DeviceBlock tags \<or> Type td = DeviceGeneric tags)"

text \<open>
  The envelope \<open>td\<close>, decoded with the decoder that its type tag selects, is the
  device \<open>dev\<close>.
\<close>

definition decodesTo :: "'v json \<Rightarrow> deviceTypes \<Rightarrow> TypedDevice \<Rightarrow> 'v Device \<Rightarrow> bool" where
  "decodesTo js tags td dev =
     (case dev of
        VFIODevice x \<Rightarrow> Type td = DeviceVFIO tags \<and> UnmarshalVFIO js (Data td) = Inr x
      | BlockDevice x \<Rightarrow> Type td = DeviceBlock tags \<and> UnmarshalBlock js (Data td) = Inr x
      | GenericDevice x \<Rightarrow> Type td = DeviceGeneric tags \<and> UnmarshalGeneric js (Data td) = Inr x
      | OtherDevice t x \<Rightarrow> False)"

text \<open>
  What is assumed of the JSON library for one value: decoding what it encoded gives
  the value back. For a device collection that is said of each device's own
  encoding and of the list of envelopes.
\<close>

definition deviceRoundTrips :: "'v json \<Rightarrow> 'v Device \<Rightarrow> bool" where
  "deviceRoundTrips js dev =
     (case MarshalDevice js dev of
        Inl err \<Rightarrow> False
      | Inr b \<Rightarrow>
          (case dev of
             VFIODevice x \<Rightarrow> UnmarshalVFIO js b = Inr x
           | BlockDevice x \<Rightarrow> UnmarshalBlock js b = Inr x
           | GenericDevice x \<Rightarrow> UnmarshalGeneric js b = Inr x
           | OtherDevice t x \<Rightarrow> True))"

definition roundTrips :: "'v json \<Rightarrow> deviceTypes \<Rightarrow> 'v data \<Rightarrow> bool" where
  "roundTrips js tags v =
     (case v of
        Devices devs \<Rightarrow>
          list_all (deviceRoundTrips js) devs
          \<and> (case MarshalTyped js (map (typedDevice js tags) devs) of
               Inl err \<Rightarrow> True
             | Inr b \<Rightarrow> UnmarshalTyped js b = Inr (map (typedDevice js tags) devs))
      | _ \<Rightarrow>
          (case Marshal js v of
             Inl err \<Rightarrow> True
           | Inr b \<Rightarrow> Unmarshal js (typeOf v) b = Inr v))"

section \<open>Concrete instances for runs of the model\<close>

text \<open>
  An encoding to run the model on, struct contents being strings: a struct with
  content \<open>x\<close> is written \<^verbatim>\<open>{x}\<close>, a list of mounts \<^verbatim>\<open>[{x}{y}]\<close> and a list of
  envelopes \<^verbatim>\<open>[type={x};type={y};]\<close>. As with JSON, the empty input decodes to nothing.
\<close>

fun fields :: "char \<Rightarrow> string \<Rightarrow> string list" where
  "fields sep [] = [[]]"
| "fields sep (c # cs) =
     (if c = sep then [] # fields sep cs
      else (case fields sep cs of [] \<Rightarrow> [[c]] | x # xs \<Rightarrow> (c # x) # xs))"

definition braces :: "string \<Rightarrow> bytes" where
  "braces x = ''{'' @ x @ ''}''"

definition unbrace :: "bytes \<Rightarrow> error + string" where
  "unbrace b =
     (if 2 \<le> length b \<and> hd b = CHR ''{'' \<and> last b = CHR ''}''
      then Inr (butlast (tl b)) else Inl SyntaxError)"

definition unbracket :: "bytes \<Rightarrow> error + string" where
  "unbracket b =
     (if 2 \<le> length b \<and> hd b = CHR ''['' \<and> last b = CHR '']''
      then Inr (butlast (tl b)) else Inl SyntaxError)"

fun unbraceAll :: "string list \<Rightarrow> error + string list" where
  "unbraceAll [] = Inr []"
| "unbraceAll (s # ss) =
     (case unbrace (s @ ''}'') of
        Inl err \<Rightarrow> Inl err
      | Inr x \<Rightarrow> (case unbraceAll ss of Inl err \<Rightarrow> Inl err | Inr xs \<Rightarrow> Inr (x # xs)))"

fun parseEnvelopes :: "string list \<Rightarrow> error + TypedDevice list" where
  "parseEnvelopes [] = Inr []"
| "parseEnvelopes (s # ss) =
     (if CHR ''='' \<in> set s then
        (case parseEnvelopes ss of
           Inl err \<Rightarrow> Inl err
         | Inr tds \<Rightarrow>
             Inr (\<lparr>Type = takeWhile (\<lambda>c. c \<noteq> CHR ''='') s,
                   Data = tl (dropWhile (\<lambda>c. c \<noteq> CHR ''='') s)\<rparr> # tds))
      else Inl SyntaxError)"

definition exampleJSON :: "string json" where
  "exampleJSON =
     \<lparr>Marshal = (\<lambda>v. case v of
          SandboxConfig x \<Rightarrow> Inr (braces x)
        | ContainerConfig x \<Rightarrow> Inr (braces x)
        | State x \<Rightarrow> Inr (braces x)
        | NetworkNamespace x \<Rightarrow> Inr (braces x)
        | Process x \<Rightarrow> Inr (braces x)
        | Mounts xs \<Rightarrow> Inr (''['' @ concat (map braces xs) @ '']'')
        | Devices ds \<Rightarrow> Inl (ErrorString ''json: unsupported type'')
        | OtherData x \<Rightarrow> Inr (braces x)),
      MarshalDevice = (\<lambda>dev. case dev of
          VFIODevice x \<Rightarrow> Inr (braces x)
        | BlockDevice x \<Rightarrow> Inr (braces x)
        | GenericDevice x \<Rightarrow> Inr (braces x)
        | OtherDevice t x \<Rightarrow> Inr (braces x)),
      MarshalTyped = (\<lambda>tds.
          Inr (''['' @ concat (map (\<lambda>td. Type td @ ''='' @ Data td @ '';'') tds) @ '']'')),
      Unmarshal = (\<lambda>t b. case t of
          SandboxConfigT \<Rightarrow> map_sum id SandboxConfig (unbrace b)
        | ContainerConfigT \<Rightarrow> map_sum id ContainerConfig (unbrace b)
        | StateT \<Rightarrow> map_sum id State (unbrace b)
        | NetworkNamespaceT \<Rightarrow> map_sum id NetworkNamespace (unbrace b)
        | ProcessT \<Rightarrow> map_sum id Process (unbrace b)
        | MountsT \<Rightarrow>
            (case unbracket b of
               Inl err \<Rightarrow> Inl err
             | Inr inner \<Rightarrow> map_sum id Mounts (unbraceAll (butlast (fields CHR ''}'' inner))))
        | DevicesT \<Rightarrow> Inl SyntaxError
        | OtherT \<Rightarrow> map_sum id OtherData (unbrace b)),
      UnmarshalTyped = (\<lambda>b.
          case unbracket b of
            Inl err \<Rightarrow> Inl err
          | Inr inner \<Rightarrow> parseEnvelopes (butlast (fields CHR '';'' inner))),
      UnmarshalVFIO = unbrace,
      UnmarshalBlock = unbrace,
      UnmarshalGeneric = unbrace\<rparr>"

definition exampleTypes :: deviceTypes where
  "exampleTypes = \<lparr>DeviceVFIO = ''vfio'', DeviceBlock = ''block'', DeviceGeneric = ''generic''\<rparr>"

definition noFaults :: faults where
  "noFaults = (\<lambda>c. False)"

definition failing :: "syscall list \<Rightarrow> faults" where
  "failing cs = (\<lambda>c. c \<in> set cs)"

definition emptyDisk :: disk where
  "emptyDisk = (\<lambda>p. None)"

definition exampleSandbox :: Sandbox where
  "exampleSandbox = \<lparr>id_s = ''s1'', containers = [\<lparr>id_c = ''c1''\<rparr>]\<rparr>"

text \<open>
  The disk after \<^verbatim>\<open>createAllResources\<close> on the example sandbox, and after a store of the
  sandbox's state on top of that.
\<close>

definition diskCreated :: disk where
  "diskCreated = snd (createAllResources noFaults exampleSandbox emptyDisk)"

definition diskStored :: disk where
  "diskStored =
     snd (storeSandboxResource noFaults exampleJSON exampleTypes ''s1'' stateFileType
            (State ''running'') diskCreated)"

definition exampleDevices :: "string data" where
  "exampleDevices =
     Devices [VFIODevice ''0000:01:00.0'', BlockDevice ''/dev/vda'', GenericDevice ''/dev/fuse'']"

text \<open>A world with one process's \<open>iostream\<close>, at index 0, and a guest that served nothing yet.\<close>

definition exampleWorld :: "nat world" where
  "exampleWorld = snd (newIOStream ''s1'' ''c1'' ''p1'' \<lparr>heap = [], guest = 0\<rparr>)"

section \<open>Auxiliary facts\<close>

lemmas fileTypes =
  configFileType_def stateFileType_def networkFileType_def hypervisorFileType_def
  agentFileType_def processFileType_def lockFileType_def mountsFileType_def
  devicesFileType_def

lemmas fileNames =
  configFile_def stateFile_def networkFile_def hypervisorFile_def agentFile_def
  processFile_def lockFileName_def mountsFile_def devicesFile_def

subsection \<open>The stream store\<close>

lemma deref_guest_update [simp]: "deref (w\<lparr>guest := g\<rparr>) p = deref w p"
  by (simp add: deref_def)

text \<open>No call changes an \<open>iostream\<close> that is closed: the flag is only ever set.\<close>

lemma deref_perform_closed:
  "deref w p = Some s \<Longrightarrow> closed s \<Longrightarrow> deref (perform ag w c) p = Some s"
proof (cases c)
  case (NewIOStream a b d)
  assume "deref w p = Some s"
  then show ?thesis using NewIOStream
    by (auto simp: deref_def newIOStream_def nth_append split: if_splits)
next
  case (Write h data)
  assume "deref w p = Some s"
  then show ?thesis using Write
    by (cases h) (auto simp: deref_def split: option.splits prod.splits if_splits)
next
  case (Close h)
  assume "deref w p = Some s" "closed s"
  then show ?thesis using Close
    by (cases h) (auto simp: deref_def nth_list_update split: option.splits prod.splits if_splits)
next
  case (ReadStdout h data)
  assume "deref w p = Some s"
  then show ?thesis using ReadStdout
    by (cases h) (auto simp: deref_def split: option.splits prod.splits if_splits)
next
  case (ReadStderr h data)
  assume "deref w p = Some s"
  then show ?thesis using ReadStderr
    by (cases h) (auto simp: deref_def split: option.splits prod.splits if_splits)
qed

lemma deref_performAll_closed:
  "deref w p = Some s \<Longrightarrow> closed s \<Longrightarrow> deref (performAll ag w cs) p = Some s"
  unfolding performAll_def
  by (induction cs arbitrary: w) (simp_all add: deref_perform_closed)

lemma Close_success_closed:
  assumes "stdinStream_Close ag (stdinStream p) w = (None, w1)"
  shows "\<exists>s. deref w p = Some s \<and> \<not> closed s \<and> deref w1 p = Some (s\<lparr>closed := True\<rparr>)
     \<and> (\<forall>q. q \<noteq> p \<longrightarrow> deref w1 q = deref w q)"
  using assms
  by (auto simp: deref_def streamClosed_def nilDereference_def
       split: option.splits prod.splits if_splits)

lemma exampleWorld_deref:
  "deref exampleWorld 0 = Some \<lparr>sandbox = ''s1'', container = ''c1'', process = ''p1'', closed = False\<rparr>"
  by (simp add: exampleWorld_def newIOStream_def deref_def)

lemma exampleWorld_guest: "guest exampleWorld = 0"
  by (simp add: exampleWorld_def newIOStream_def)

subsection \<open>Paths\<close>

lemma configStoragePath_eq: "configStoragePath = [''var'', ''lib'', ''vc'', ''sbs'']"
  by (simp add: configStoragePath_def Join_def storagePathSuffix_def cleanStep_def)

lemma runStoragePath_eq: "runStoragePath = [''run'', ''vc'', ''sbs'']"
  by (simp add: runStoragePath_def Join_def storagePathSuffix_def cleanStep_def)

lemma cleanStep_empty [simp]: "cleanStep p [] = p"
  by (simp add: cleanStep_def)

lemma Join_pair:
  "Join base [a, b] = foldl cleanStep (foldl cleanStep base (splitPath a)) (splitPath b)"
  by (simp add: Join_def)

text \<open>Components other than \<^verbatim>\<open>..\<close> never lead out of the directory they are joined to.\<close>

lemma prefix_foldl_cleanStep:
  "''..'' \<notin> set es \<Longrightarrow> prefix p (foldl cleanStep p es)"
proof (induction es arbitrary: p)
  case Nil
  then show ?case by simp
next
  case (Cons e es)
  then have "prefix (cleanStep p e) (foldl cleanStep (cleanStep p e) es)" by simp
  moreover have "prefix p (cleanStep p e)"
    using Cons.prems by (auto simp: cleanStep_def)
  ultimately show ?case by (auto intro: prefix_order.trans)
qed

lemma Join_filename:
  "resourceFilename k = Some f \<Longrightarrow> Join p [f] = p @ [f]"
  by (auto simp: resourceFilename_def Join_def cleanStep_def fileNames split: if_splits)

lemma resourceDir_Inr:
  assumes "resourceDir sb S C k = Inr dir"
  shows "S \<noteq> [] \<and> dir = foldl cleanStep
           (foldl cleanStep (if k = configFileType then configStoragePath else runStoragePath)
              (splitPath S)) (splitPath C)"
  using assms unfolding resourceDir_def Join_pair
  by (simp split: if_splits)

lemma resourceURI_Inr:
  assumes "resourceURI sb S C k = Inr (fp, dir)"
  shows "resourceDir sb S C k = Inr dir \<and> (\<exists>f. resourceFilename k = Some f \<and> fp = dir @ [f])"
  using assms unfolding resourceURI_def
  by (auto simp: Join_filename split: if_splits sum.splits option.splits)

lemma sandboxURI_config:
  "S \<noteq> [] \<Longrightarrow> \<exists>fp. sandboxURI S configFileType
      = Inr (fp, foldl cleanStep configStoragePath (splitPath S))"
  by (simp add: sandboxURI_def resourceURI_def resourceDir_def resourceNeedsContainerID_def
      resourceFilename_def Join_pair)

lemma sandboxURI_state:
  "S \<noteq> [] \<Longrightarrow> \<exists>fp. sandboxURI S stateFileType
      = Inr (fp, foldl cleanStep runStoragePath (splitPath S))"
  by (simp add: sandboxURI_def resourceURI_def resourceDir_def resourceNeedsContainerID_def
      resourceFilename_def Join_pair fileTypes)

lemma sandboxURI_empty: "sandboxURI [] k = Inl errNeedSandboxID"
  by (simp add: sandboxURI_def resourceURI_def)

lemma resourceNeedsContainerID_four:
  "k \<in> {lockFileType, networkFileType, hypervisorFileType, agentFileType}
   \<Longrightarrow> resourceNeedsContainerID sb k = False"
  by (auto simp: resourceNeedsContainerID_def)

lemma resourceDir_four:
  "k \<in> {lockFileType, networkFileType, hypervisorFileType, agentFileType}
   \<Longrightarrow> resourceDir sb S C k = resourceDir True S C k"
  by (simp add: resourceDir_def resourceNeedsContainerID_four)

lemma resourceURI_four:
  "k \<in> {lockFileType, networkFileType, hypervisorFileType, agentFileType}
   \<Longrightarrow> resourceURI sb S C k = resourceURI True S C k"
  by (simp add: resourceURI_def resourceDir_four[of k sb])

lemma commonResourceChecks_four:
  "k \<in> {lockFileType, networkFileType, hypervisorFileType, agentFileType}
   \<Longrightarrow> commonResourceChecks sb S C k = commonResourceChecks True S C k"
  by (simp add: commonResourceChecks_def resourceNeedsContainerID_four)

subsection \<open>Deleting\<close>

text \<open>
  What a successful \<^verbatim>\<open>deleteSandboxResources(sandboxID, nil)\<close> leaves: the disk without
  the sandbox's directory under either root.
\<close>

lemma delete_nil_success:
  assumes "deleteSandboxResources flt S None d = (None, d')"
  shows "S \<noteq> [] \<and> d' = (\<lambda>q. if prefix (foldl cleanStep runStoragePath (splitPath S)) q then None
             else if prefix (foldl cleanStep configStoragePath (splitPath S)) q then None
             else d q)"
proof (cases "S = []")
  case True
  with assms show ?thesis
    by (simp add: deleteSandboxResources_def sandboxURI_empty)
next
  case False
  obtain f1 where f1: "sandboxURI S configFileType
      = Inr (f1, foldl cleanStep configStoragePath (splitPath S))"
    using sandboxURI_config[OF False] by blast
  obtain f2 where f2: "sandboxURI S stateFileType
      = Inr (f2, foldl cleanStep runStoragePath (splitPath S))"
    using sandboxURI_state[OF False] by blast
  from assms show ?thesis
    using False
    by (auto simp: deleteSandboxResources_def f1 f2 os_RemoveAll_def split: if_splits)
qed

subsection \<open>Storing\<close>

lemma storeFile_success:
  assumes "storeFile flt js (Some p) v d = (None, d')" and "\<not> flt (FileWrite p)"
  shows "\<exists>b. Marshal js v = Inr b \<and> d' p = Some (File b)"
  using assms
  by (auto simp: storeFile_def os_Create_def file_Write_def
      split: if_splits sum.splits prod.splits)

lemma storeDeviceFile_success:
  assumes "storeDeviceFile flt js tags (Some p) v d = (None, d')"
  shows "\<exists>devs b. v = Devices devs
      \<and> MarshalTyped js (map (typedDevice js tags) devs) = Inr b \<and> d' p = Some (File b)"
  using assms
  by (auto simp: storeDeviceFile_def os_Create_def file_Write_def
      split: if_splits sum.splits prod.splits data.splits option.splits)

lemma decodeDevice_typedDevice:
  assumes "distinct [DeviceVFIO tags, DeviceBlock tags, DeviceGeneric tags]"
    and "knownDevice dev" and "deviceRoundTrips js dev"
  shows "decodeDevice js tags (typedDevice js tags dev) = Inr dev"
  using assms
  by (cases dev)
     (auto simp: decodeDevice_def typedDevice_def knownDevice_def deviceRoundTrips_def
        split: sum.splits)

lemma decodeDevices_typedDevice:
  assumes "distinct [DeviceVFIO tags, DeviceBlock tags, DeviceGeneric tags]"
    and "list_all knownDevice devs" and "list_all (deviceRoundTrips js) devs"
  shows "decodeDevices js tags (map (typedDevice js tags) devs) acc = Inr (acc @ devs)"
  using assms(2,3)
proof (induction devs arbitrary: acc)
  case Nil
  then show ?case by simp
next
  case (Cons dev devs)
  then show ?case
    by (simp add: decodeDevice_typedDevice[OF assms(1)])
qed

text \<open>
  A store that returns no error passed the common checks and went through the one
  function that writes the kind's file.
\<close>

lemma storeResource_success:
  assumes "storeResource flt js tags sb S C k v d = (None, d')"
    and "resourceURI sb S C k = Inr (fp, dir)"
  shows "commonResourceChecks sb S C k = None
     \<and> (if k = devicesFileType then storeDeviceFile flt js tags (Some fp) v d = (None, d')
         else storeFile flt js (Some fp) v d = (None, d') \<and> (\<forall>devs. v \<noteq> Devices devs))"
proof -
  have chk: "commonResourceChecks sb S C k = None"
    using assms(1) by (simp add: storeResource_def split: option.splits)
  have net: "k = networkFileType \<Longrightarrow> resourceURI True S C k = Inr (fp, dir)"
    using assms(2) resourceURI_four[of k sb S C] by simp
  show ?thesis
  proof (cases v)
    case (SandboxConfig x)
    with assms chk show ?thesis
      by (auto simp: storeResource_def storeSandboxAndContainerConfigResource_def fileTypes
          split: if_splits)
  next
    case (ContainerConfig x)
    with assms chk show ?thesis
      by (auto simp: storeResource_def storeSandboxAndContainerConfigResource_def fileTypes
          split: if_splits)
  next
    case (State x)
    with assms chk show ?thesis
      by (auto simp: storeResource_def storeStateResource_def fileTypes split: if_splits)
  next
    case (NetworkNamespace x)
    with assms chk net show ?thesis
      by (auto simp: storeResource_def storeNetworkResource_def fileTypes split: if_splits)
  next
    case (Process x)
    with assms chk show ?thesis
      by (auto simp: storeResource_def storeProcessResource_def fileTypes split: if_splits)
  next
    case (Mounts x)
    with assms chk show ?thesis
      by (auto simp: storeResource_def storeMountResource_def fileTypes split: if_splits)
  next
    case (Devices x)
    with assms chk show ?thesis
      by (auto simp: storeResource_def storeDeviceResource_def fileTypes split: if_splits)
  next
    case (OtherData x)
    with assms chk show ?thesis
      by (simp add: storeResource_def)
  qed
qed

subsection \<open>Decoding devices\<close>

lemma decodeDevices_Inr:
  assumes "decodeDevices js tags tds acc = Inr devs"
  shows "\<exists>new. devs = acc @ new \<and> list_all2 (\<lambda>td dev. decodeDevice js tags td = Inr dev) tds new"
  using assms
proof (induction tds arbitrary: acc)
  case Nil
  then show ?case by simp
next
  case (Cons td tds)
  from Cons.prems obtain dev where dev: "decodeDevice js tags td = Inr dev"
    and rest: "decodeDevices js tags tds (acc @ [dev]) = Inr devs"
    by (auto split: sum.splits)
  from Cons.IH[OF rest] obtain new where "devs = (acc @ [dev]) @ new"
    and "list_all2 (\<lambda>td dev. decodeDevice js tags td = Inr dev) tds new"
    by blast
  with dev have "devs = acc @ (dev # new)
      \<and> list_all2 (\<lambda>td dev. decodeDevice js tags td = Inr dev) (td # tds) (dev # new)"
    by simp
  then show ?case by blast
qed

lemma decodeDevice_decodesTo:
  assumes "distinct [DeviceVFIO tags, DeviceBlock tags, DeviceGeneric tags]"
  shows "decodeDevice js tags td = Inr dev \<longleftrightarrow> decodesTo js tags td dev"
  using assms
  by (cases dev) (auto simp: decodeDevice_def decodesTo_def unknownDeviceType_def split: sum.splits)

lemma decodeDevice_errors:
  assumes "distinct [DeviceVFIO tags, DeviceBlock tags, DeviceGeneric tags]"
  shows "\<not> knownType tags td \<Longrightarrow> decodeDevice js tags td = Inl unknownDeviceType"
    and "Type td = DeviceVFIO tags \<Longrightarrow> UnmarshalVFIO js (Data td) = Inl err
         \<Longrightarrow> decodeDevice js tags td = Inl err"
    and "Type td = DeviceBlock tags \<Longrightarrow> UnmarshalBlock js (Data td) = Inl err
         \<Longrightarrow> decodeDevice js tags td = Inl err"
    and "Type td = DeviceGeneric tags \<Longrightarrow> UnmarshalGeneric js (Data td) = Inl err
         \<Longrightarrow> decodeDevice js tags td = Inl err"
  using assms by (auto simp: decodeDevice_def knownType_def)

lemma decodeDevices_all:
  assumes "list_all2 (\<lambda>td dev. decodeDevice js tags td = Inr dev) tds new"
  shows "decodeDevices js tags tds acc = Inr (acc @ new)"
  using assms
  by (induction tds new arbitrary: acc rule: list_all2_induct) simp_all

text \<open>
  The loop stops at the first envelope that fails, with that envelope's error.
\<close>

lemma decodeDevices_first_failure:
  assumes "list_all2 (\<lambda>td dev. decodeDevice js tags td = Inr dev) pre devs"
    and "decodeDevice js tags td = Inl err"
  shows "decodeDevices js tags (pre @ td # post) acc = Inl err"
  using assms
  by (induction pre devs arbitrary: acc rule: list_all2_induct) simp_all

subsection \<open>The container id\<close>

lemma storeResource_four:
  assumes "k \<in> {lockFileType, networkFileType, hypervisorFileType, agentFileType}"
  shows "storeResource flt js tags sb S C k v d = storeResource flt js tags True S C k v d"
proof -
  have k: "k \<noteq> configFileType" "k \<noteq> stateFileType" "k \<noteq> processFileType"
    "k \<noteq> mountsFileType" "k \<noteq> devicesFileType"
    using assms by (auto simp: fileTypes)
  have 1: "storeSandboxAndContainerConfigResource flt js tags sb S C k v d
      = storeSandboxAndContainerConfigResource flt js tags True S C k v d"
    by (simp add: k storeSandboxAndContainerConfigResource_def)
  have 2: "storeStateResource flt js tags sb S C k v d = storeStateResource flt js tags True S C k v d"
    by (simp add: k storeStateResource_def)
  have 3: "storeNetworkResource flt js tags sb S C k v d = storeNetworkResource flt js tags True S C k v d"
    by (simp add: storeNetworkResource_def)
  have 4: "storeProcessResource flt js tags sb S C k v d = storeProcessResource flt js tags True S C k v d"
    by (simp add: k storeProcessResource_def)
  have 5: "storeMountResource flt js tags sb S C k v d = storeMountResource flt js tags True S C k v d"
    by (simp add: k storeMountResource_def)
  have 6: "storeDeviceResource flt js tags sb S C k v d = storeDeviceResource flt js tags True S C k v d"
    by (simp add: k storeDeviceResource_def)
  show ?thesis
    unfolding storeResource_def commonResourceChecks_four[OF assms, of sb] 1 2 3 4 5 6
    by (rule refl)
qed

lemma fetchResource_four:
  assumes "k \<in> {lockFileType, networkFileType, hypervisorFileType, agentFileType}"
  shows "fetchResource flt js tags sb S C k t d = fetchResource flt js tags True S C k t d"
  unfolding fetchResource_def commonResourceChecks_four[OF assms, of sb]
    resourceURI_four[OF assms, of sb]
  by simp

lemma resourceURI_four_succeeds:
  assumes "k \<in> {lockFileType, networkFileType, hypervisorFileType, agentFileType}" and "S \<noteq> []"
  shows "\<exists>fp dir. resourceURI sb S [] k = Inr (fp, dir)"
  using assms
  by (auto simp: resourceURI_def resourceDir_def resourceNeedsContainerID_def
      resourceFilename_def fileTypes)

lemma needs_container_id:
  assumes "k \<notin> {lockFileType, networkFileType, hypervisorFileType, agentFileType}" and "S \<noteq> []"
  shows "resourceDir False S [] k = Inl errNeedContainerID"
    and "resourceURI False S [] k = Inl errNeedContainerID"
    and "commonResourceChecks False S [] k = Some errNeedContainerID"
    and "storeResource flt js tags False S [] k v d = (Some errNeedContainerID, d)"
    and "fetchResource flt js tags False S [] k t d = Inl errNeedContainerID"
    and "resourceDir True S [] k \<noteq> Inl errNeedContainerID"
    and "commonResourceChecks True S [] k \<noteq> Some errNeedContainerID"
  using assms
  by (simp_all add: resourceDir_def resourceURI_def commonResourceChecks_def
      storeResource_def fetchResource_def resourceNeedsContainerID_def)

lemma container_level_needs_id:
  assumes "S \<noteq> []"
  shows "containerURI S [] k = Inl errNeedContainerID"
    and "storeContainerResource flt js tags S [] k v d = (Some errNeedContainerID, d)"
  using assms by (simp_all add: containerURI_def storeContainerResource_def)

lemma resourceDir_root:
  assumes "resourceDir sb S C k = Inr p"
  shows "p = Join (if k = configFileType then configStoragePath else runStoragePath) [S, C]"
  using assms by (simp add: resourceDir_def split: if_splits)

section \<open>The claims\<close>

subsection \<open>C1: a fetch after a store\<close>

text \<open>
  C1 as it is written: after a successful store of a value under (S, C, kind), a
  fetch of (S, C, kind) returns the value. A device collection may hold a device whose
  type is none of VFIO, Block and Generic; \<^verbatim>\<open>storeDeviceFile\<close> writes its envelope, the
  store succeeds, and \<^verbatim>\<open>fetchDeviceFile\<close> then rejects the tag. So the claim fails on
  the example sandbox's container for the collection below.
\<close>

theorem store_then_fetch_counterexample:
  "fst (storeResource noFaults exampleJSON exampleTypes False ''s1'' ''c1'' devicesFileType
          (Devices [VFIODevice ''0000:01:00.0'', OtherDevice ''vhost-user-blk-pci'' ''/tmp/sock'']) diskCreated)
     = None
   \<and> fetchResource noFaults exampleJSON exampleTypes False ''s1'' ''c1'' devicesFileType DevicesT
       (snd (storeResource noFaults exampleJSON exampleTypes False ''s1'' ''c1'' devicesFileType
          (Devices [VFIODevice ''0000:01:00.0'', OtherDevice ''vhost-user-blk-pci'' ''/tmp/sock'']) diskCreated))
     = Inl unknownDeviceType"
  unfolding diskCreated_def by code_simp

text \<open>
  C1, amended: for every sandbox id, container id, kind and value whose devices (if it
  is a device collection) are all VFIO, Block or Generic devices, if the store of the
  value returned no error and the write to the kind's file did not fail, then a fetch
  of the same (S, C, kind) whose read of that file does not fail returns the value;
  the JSON library is assumed to decode what it encoded for this value, and the three
  type tags to differ.
\<close>

theorem store_then_fetch:
  assumes st: "storeResource flt js tags sb S C k v d = (None, d')"
    and uri: "resourceURI sb S C k = Inr (fp, dir)"
    and wr: "\<not> flt (FileWrite fp)"
    and rd: "\<not> flt' (ReadFile fp)"
    and kn: "knownDevices v"
    and dt: "distinct [DeviceVFIO tags, DeviceBlock tags, DeviceGeneric tags]"
    and rt: "roundTrips js tags v"
  shows "fetchResource flt' js tags sb S C k (typeOf v) d' = Inr v"
proof -
  note ss = storeResource_success[OF st uri]
  then have chk: "commonResourceChecks sb S C k = None" by simp
  show ?thesis
  proof (cases "k = devicesFileType")
    case True
    with ss obtain devs b where v: "v = Devices devs"
      and m: "MarshalTyped js (map (typedDevice js tags) devs) = Inr b"
      and f: "d' fp = Some (File b)"
      using storeDeviceFile_success by fastforce
    from rt v m have u: "UnmarshalTyped js b = Inr (map (typedDevice js tags) devs)"
      and each: "list_all (deviceRoundTrips js) devs"
      by (simp_all add: roundTrips_def)
    from kn v have "list_all knownDevice devs" by (simp add: knownDevices_def)
    then have "fetchDeviceFile js tags b = Inr devs"
      using decodeDevices_typedDevice[OF dt _ each, of "[]"] u
      by (simp add: fetchDeviceFile_def)
    with f rd True v chk uri show ?thesis
      by (simp add: fetchResource_def fetchFile_def ioutil_ReadFile_def)
  next
    case False
    with ss have sf: "storeFile flt js (Some fp) v d = (None, d')"
      and nd: "\<forall>devs. v \<noteq> Devices devs" by simp_all
    from storeFile_success[OF sf wr] obtain b where m: "Marshal js v = Inr b"
      and f: "d' fp = Some (File b)" by blast
    from rt nd m have "Unmarshal js (typeOf v) b = Inr v"
      by (cases v) (simp_all add: roundTrips_def)
    with f rd False chk uri show ?thesis
      by (simp add: fetchResource_def fetchFile_def ioutil_ReadFile_def)
  qed
qed

text \<open>
  The amended C1 at a concrete input: one device of each known variant, stored for
  container \<^verbatim>\<open>c1\<close> of sandbox \<^verbatim>\<open>s1\<close> and fetched back.
\<close>

theorem store_then_fetch_witness:
  "fst (storeResource noFaults exampleJSON exampleTypes False ''s1'' ''c1'' devicesFileType
          exampleDevices diskCreated) = None
   \<and> knownDevices exampleDevices
   \<and> roundTrips exampleJSON exampleTypes exampleDevices
   \<and> fetchResource noFaults exampleJSON exampleTypes False ''s1'' ''c1'' devicesFileType DevicesT
       (snd (storeResource noFaults exampleJSON exampleTypes False ''s1'' ''c1'' devicesFileType
          exampleDevices diskCreated))
     = Inr exampleDevices"
proof -
  let ?r = "storeResource noFaults exampleJSON exampleTypes False ''s1'' ''c1'' devicesFileType
          exampleDevices diskCreated"
  have ok: "fst ?r = None"
    unfolding diskCreated_def by code_simp
  then have st: "?r = (None, snd ?r)"
    by (simp add: prod_eq_iff)
  have uri: "resourceURI False ''s1'' ''c1'' devicesFileType
      = Inr ([''run'', ''vc'', ''sbs'', ''s1'', ''c1'', ''devices.json''],
             [''run'', ''vc'', ''sbs'', ''s1'', ''c1''])"
    by code_simp
  have wr: "\<not> noFaults (FileWrite [''run'', ''vc'', ''sbs'', ''s1'', ''c1'', ''devices.json''])"
    by (simp add: noFaults_def)
  have rd: "\<not> noFaults (ReadFile [''run'', ''vc'', ''sbs'', ''s1'', ''c1'', ''devices.json''])"
    by (simp add: noFaults_def)
  have kn: "knownDevices exampleDevices"
    by code_simp
  have dt: "distinct [DeviceVFIO exampleTypes, DeviceBlock exampleTypes, DeviceGeneric exampleTypes]"
    by code_simp
  have rt: "roundTrips exampleJSON exampleTypes exampleDevices"
    by code_simp
  have ty: "typeOf exampleDevices = DevicesT"
    by (simp add: exampleDevices_def)
  from store_then_fetch[where flt = noFaults and flt' = noFaults, OF st uri wr rd kn dt rt]
  have "fetchResource noFaults exampleJSON exampleTypes False ''s1'' ''c1'' devicesFileType DevicesT
       (snd ?r) = Inr exampleDevices"
    by (simp only: ty)
  with ok kn rt show ?thesis
    by blast
qed

subsection \<open>C2: the three handles of a process\<close>

text \<open>
  C2 as it is written: a successful Close of the stdin handle changes only stdin's
  closed state, so a later Read on the process's stdout or stderr handle does not fail
  with the stream-closed error. The three handles embed one pointer to one
  \<open>iostream\<close> and so one \<open>closed\<close> field: after the Close, both Reads fail.
\<close>

theorem stdin_close_counterexample:
  "fst (stdinStream_Close (countingAgent 5) (stdin 0) exampleWorld) = None
   \<and> fst (stdoutStream_Read (countingAgent 5) (stdout 0) ''buf''
           (snd (stdinStream_Close (countingAgent 5) (stdin 0) exampleWorld)))
       = (''buf'', 0, Some streamClosed)
   \<and> fst (stderrStream_Read (countingAgent 5) (stderr 0) ''buf''
           (snd (stdinStream_Close (countingAgent 5) (stdin 0) exampleWorld)))
       = (''buf'', 0, Some streamClosed)"
  by (simp add: exampleWorld_def newIOStream_def stdin_def stdout_def stderr_def deref_def
      countingAgent_def)

text \<open>
  C2, amended: the stdin, stdout and stderr handles of one \<open>iostream\<close> share its
  single closed flag. After a successful Close of the stdin handle, a Read on the
  stdout handle and a Read on the stderr handle of the same \<open>iostream\<close> fail with the
  stream-closed error and leave the world as it is; every other \<open>iostream\<close> is
  untouched.
\<close>

theorem stdin_close_closes_all_three:
  assumes "stdinStream_Close ag (stdin p) w = (None, w')"
  shows "stdoutStream_Read ag (stdout p) data w' = ((data, 0, Some streamClosed), w')
     \<and> stderrStream_Read ag (stderr p) data w' = ((data, 0, Some streamClosed), w')
     \<and> (\<forall>q. q \<noteq> p \<longrightarrow> deref w' q = deref w q)"
  using Close_success_closed[OF assms[unfolded stdin_def]]
  by (auto simp: stdout_def stderr_def)

theorem stdin_close_closes_all_three_witness:
  "fst (stdinStream_Close (countingAgent 5) (stdin 0) exampleWorld) = None
   \<and> fst (stdoutStream_Read (countingAgent 5) (stdout 0) ''out''
           (snd (stdinStream_Close (countingAgent 5) (stdin 0) exampleWorld)))
       = (''out'', 0, Some streamClosed)
   \<and> deref (snd (stdinStream_Close (countingAgent 5) (stdin 0) exampleWorld)) 1
       = deref exampleWorld 1"
proof -
  let ?r = "stdinStream_Close (countingAgent 5) (stdin 0) exampleWorld"
  have ok: "fst ?r = None"
    by (simp add: stdin_def exampleWorld_deref exampleWorld_guest countingAgent_def)
  then have st: "?r = (None, snd ?r)"
    by (simp add: prod_eq_iff)
  from stdin_close_closes_all_three[OF st, of "''out''"] ok show ?thesis
    by simp
qed

subsection \<open>C3: deleting a sandbox's resources\<close>

text \<open>
  C3 as it is written: a delete with an empty set of kinds defaults to config and
  state and removes everything of the sandbox. The function takes the default only
  when the slice is nil. With an empty slice that is not nil its loop has nothing to
  do: it returns no error, the disk is as before, and the stored state is still
  fetched.
\<close>

theorem delete_empty_kinds_counterexample:
  "deleteSandboxResources noFaults ''s1'' (Some []) diskStored = (None, diskStored)
   \<and> fetchResource noFaults exampleJSON exampleTypes True ''s1'' [] stateFileType StateT diskStored
       = Inr (State ''running'')"
proof -
  have "fetchResource noFaults exampleJSON exampleTypes True ''s1'' [] stateFileType StateT diskStored
       = Inr (State ''running'')"
    unfolding diskStored_def diskCreated_def by code_simp
  then show ?thesis
    by (simp add: deleteSandboxResources_def)
qed

text \<open>
  C3, amended: for every sandbox id S, \<^verbatim>\<open>deleteSandboxResources\<close> called with a nil
  slice of kinds works on the kinds config and state; if it returns no error, then
  every later fetch of any kind for S, or for a container id C under S (one with no
  \<^verbatim>\<open>..\<close> component), fails: with the not-found error of the read whenever the common
  checks on the ids and the kind pass, and with the error of those checks otherwise.
\<close>

theorem delete_sandbox_then_fetch_fails:
  assumes del: "deleteSandboxResources flt S None d = (None, d')"
    and C: "''..'' \<notin> set (splitPath C)"
  shows "deleteSandboxResources flt S None d
       = removeResourceDirs flt S [configFileType, stateFileType] d
     \<and> (\<exists>err. fetchResource flt' js tags sb S C k t d' = Inl err)
     \<and> (commonResourceChecks sb S C k = None
          \<longrightarrow> fetchResource flt' js tags sb S C k t d' = Inl (PathError ENOENT))"
proof (cases "commonResourceChecks sb S C k")
  case (Some err)
  then show ?thesis by (simp add: fetchResource_def deleteSandboxResources_def)
next
  case None
  show ?thesis
  proof (cases "resourceURI sb S C k")
    case (Inl err)
    with None show ?thesis
      by (simp add: commonResourceChecks_def resourceURI_def resourceDir_def
          resourceFilename_def fileTypes split: if_splits)
  next
    case (Inr fd)
    obtain fp dir where fd: "fd = (fp, dir)" by (cases fd)
    from Inr fd obtain f where
      dir: "dir = foldl cleanStep
           (foldl cleanStep (if k = configFileType then configStoragePath else runStoragePath)
              (splitPath S)) (splitPath C)" and fdir: "fp = dir @ [f]"
      using resourceURI_Inr resourceDir_Inr by blast
    have "prefix (foldl cleanStep (if k = configFileType then configStoragePath else runStoragePath)
              (splitPath S)) dir"
      unfolding dir using C by (rule prefix_foldl_cleanStep)
    then have pre: "prefix (foldl cleanStep (if k = configFileType then configStoragePath else runStoragePath)
              (splitPath S)) fp"
      unfolding fdir by (rule prefix_prefix)
    have gone: "d' fp = None"
      using delete_nil_success[OF del] pre by (simp split: if_splits)
    have "fp \<noteq> []" by (simp add: fdir)
    with gone have "fetchFile flt' js tags (Some fp) k t d' = Inl (PathError ENOENT)"
      by (simp add: fetchFile_def ioutil_ReadFile_def)
    with None Inr fd show ?thesis by (simp add: fetchResource_def deleteSandboxResources_def)
  qed
qed

theorem delete_sandbox_then_fetch_fails_witness:
  "fst (deleteSandboxResources noFaults ''s1'' None diskStored) = None
   \<and> ''..'' \<notin> set (splitPath ''c1'')
   \<and> commonResourceChecks True ''s1'' [] stateFileType = None
   \<and> fetchResource noFaults exampleJSON exampleTypes True ''s1'' [] stateFileType StateT
       (snd (deleteSandboxResources noFaults ''s1'' None diskStored)) = Inl (PathError ENOENT)
   \<and> fetchResource noFaults exampleJSON exampleTypes False ''s1'' ''c1'' devicesFileType DevicesT
       (snd (deleteSandboxResources noFaults ''s1'' None diskStored)) = Inl (PathError ENOENT)"
proof -
  let ?r = "deleteSandboxResources noFaults ''s1'' None diskStored"
  have ok: "fst ?r = None"
    unfolding diskStored_def diskCreated_def by code_simp
  then have del: "?r = (None, snd ?r)"
    by (simp add: prod_eq_iff)
  have c1: "''..'' \<notin> set (splitPath ''c1'')"
    by code_simp
  have c0: "''..'' \<notin> set (splitPath [])"
    by simp
  have chk1: "commonResourceChecks True ''s1'' [] stateFileType = None"
    by code_simp
  have chk2: "commonResourceChecks False ''s1'' ''c1'' devicesFileType = None"
    by code_simp
  from delete_sandbox_then_fetch_fails[OF del c0, of noFaults exampleJSON exampleTypes True stateFileType StateT]
    chk1
  have f1: "fetchResource noFaults exampleJSON exampleTypes True ''s1'' [] stateFileType StateT
       (snd ?r) = Inl (PathError ENOENT)"
    by blast
  from delete_sandbox_then_fetch_fails[OF del c1, of noFaults exampleJSON exampleTypes False devicesFileType DevicesT]
    chk2
  have f2: "fetchResource noFaults exampleJSON exampleTypes False ''s1'' ''c1'' devicesFileType DevicesT
       (snd ?r) = Inl (PathError ENOENT)"
    by blast
  from ok c1 chk1 f1 f2 show ?thesis
    by blast
qed

subsection \<open>C4: a failing \<^verbatim>\<open>createAllResources\<close>\<close>

text \<open>
  C4 says that after any failing \<^verbatim>\<open>createAllResources\<close> nothing of the sandbox is left
  on disk. The loop over the containers' directories and the creation of the lock
  file call \<^verbatim>\<open>deleteSandboxResources\<close> before they return an error; the first loop,
  over the sandbox's own directories, returns the error at once. When its first
  \<^verbatim>\<open>MkdirAll\<close> (the state directory under the runtime root) succeeds and its second
  (the config directory) fails, the call fails and the sandbox's runtime directory
  stays. For contrast, the same failure one step later, on the config directory of
  container \<^verbatim>\<open>c1\<close>, is rolled back.
\<close>

theorem createAllResources_first_loop_no_rollback:
  "fst (createAllResources (failing [MkdirAll [''var'', ''lib'', ''vc'', ''sbs'', ''s1'']])
          exampleSandbox emptyDisk) = Some (PathError EIO)
   \<and> snd (createAllResources (failing [MkdirAll [''var'', ''lib'', ''vc'', ''sbs'', ''s1'']])
          exampleSandbox emptyDisk) [''run'', ''vc'', ''sbs'', ''s1''] = Some Dir
   \<and> fst (createAllResources (failing [MkdirAll [''var'', ''lib'', ''vc'', ''sbs'', ''s1'', ''c1'']])
          exampleSandbox emptyDisk) = Some (PathError EIO)
   \<and> snd (createAllResources (failing [MkdirAll [''var'', ''lib'', ''vc'', ''sbs'', ''s1'', ''c1'']])
          exampleSandbox emptyDisk) [''run'', ''vc'', ''sbs'', ''s1''] = None"
  by code_simp

subsection \<open>C5: decoding the device envelopes\<close>

text \<open>
  C5 as it is written: a collection that holds an envelope with an unknown type tag
  makes the fetch fail with the unknown-device-type error. The loop goes through the
  envelopes in order and returns at the first failure, so when an envelope before the
  unknown one carries a known tag and a payload that does not decode, the error is
  that of the decoder.
\<close>

theorem fetchDeviceFile_counterexample:
  "UnmarshalTyped exampleJSON ''[vfio=oops;bogus={x};]''
     = Inr [\<lparr>Type = ''vfio'', Data = ''oops''\<rparr>, \<lparr>Type = ''bogus'', Data = ''{x}''\<rparr>]
   \<and> \<not> knownType exampleTypes \<lparr>Type = ''bogus'', Data = ''{x}''\<rparr>
   \<and> fetchDeviceFile exampleJSON exampleTypes ''[vfio=oops;bogus={x};]'' = Inl SyntaxError
   \<and> SyntaxError \<noteq> unknownDeviceType"
  by code_simp

text \<open>
  C5, amended: for every persisted device collection, that is every file content the
  JSON library decodes into a list of envelopes (the three type tags being distinct),
  the fetch returns a device collection exactly when every envelope carries the tag
  VFIO, Block or Generic and the decoder that tag selects accepts the envelope's
  data, and the collection is then the decoded devices, one for each envelope, in
  order. If some envelope's Type tag is none of the three the fetch fails and returns
  no collection. The error is that of the first envelope that fails, all envelopes
  before it being decoded: the unknown-device-type error if its tag is none of the
  three, and the error of the decoder its tag selects if its data does not decode.
\<close>

theorem fetchDeviceFile_dispatch:
  assumes U: "UnmarshalTyped js fileData = Inr tds"
    and dt: "distinct [DeviceVFIO tags, DeviceBlock tags, DeviceGeneric tags]"
  shows "(\<forall>devs. fetchDeviceFile js tags fileData = Inr devs
            \<longleftrightarrow> list_all2 (decodesTo js tags) tds devs)
     \<and> ((\<exists>td \<in> set tds. \<not> knownType tags td)
           \<longrightarrow> (\<exists>err. fetchDeviceFile js tags fileData = Inl err))
     \<and> (\<forall>pre td post devs err.
           tds = pre @ td # post \<and> list_all2 (decodesTo js tags) pre devs \<longrightarrow>
             (\<not> knownType tags td \<longrightarrow> fetchDeviceFile js tags fileData = Inl unknownDeviceType)
           \<and> (Type td = DeviceVFIO tags \<and> UnmarshalVFIO js (Data td) = Inl err
                \<longrightarrow> fetchDeviceFile js tags fileData = Inl err)
           \<and> (Type td = DeviceBlock tags \<and> UnmarshalBlock js (Data td) = Inl err
                \<longrightarrow> fetchDeviceFile js tags fileData = Inl err)
           \<and> (Type td = DeviceGeneric tags \<and> UnmarshalGeneric js (Data td) = Inl err
                \<longrightarrow> fetchDeviceFile js tags fileData = Inl err))"
proof -
  have fetch: "fetchDeviceFile js tags fileData = decodeDevices js tags tds []"
    using U by (simp add: fetchDeviceFile_def)
  have rel: "(\<lambda>td dev. decodeDevice js tags td = Inr dev) = decodesTo js tags"
    by (intro ext) (rule decodeDevice_decodesTo[OF dt])
  have iff: "\<forall>devs. fetchDeviceFile js tags fileData = Inr devs
            \<longleftrightarrow> list_all2 (decodesTo js tags) tds devs"
  proof (intro allI iffI)
    fix devs
    assume "fetchDeviceFile js tags fileData = Inr devs"
    then have "decodeDevices js tags tds [] = Inr devs" by (simp add: fetch)
    from decodeDevices_Inr[OF this] show "list_all2 (decodesTo js tags) tds devs"
      by (simp add: rel)
  next
    fix devs
    assume "list_all2 (decodesTo js tags) tds devs"
    then have "list_all2 (\<lambda>td dev. decodeDevice js tags td = Inr dev) tds devs"
      by (simp add: rel)
    from decodeDevices_all[OF this, of "[]"] show "fetchDeviceFile js tags fileData = Inr devs"
      by (simp add: fetch)
  qed
  have fails: "\<exists>err. fetchDeviceFile js tags fileData = Inl err"
    if unk: "\<exists>td \<in> set tds. \<not> knownType tags td"
  proof (cases "fetchDeviceFile js tags fileData")
    case (Inl err)
    then show ?thesis by blast
  next
    case (Inr devs)
    with iff have all: "list_all2 (decodesTo js tags) tds devs" by blast
    from unk obtain td where td: "td \<in> set tds" "\<not> knownType tags td" by blast
    from td(1) all obtain dev where "decodesTo js tags td dev"
      by (auto simp: in_set_conv_nth list_all2_conv_all_nth)
    with td(2) have False
      by (cases dev) (auto simp: decodesTo_def knownType_def)
    then show ?thesis ..
  qed
  have first: "fetchDeviceFile js tags fileData = Inl err"
    if "tds = pre @ td # post" "list_all2 (decodesTo js tags) pre devs"
      "decodeDevice js tags td = Inl err" for pre td post devs err
  proof -
    from that(2) have "list_all2 (\<lambda>td dev. decodeDevice js tags td = Inr dev) pre devs"
      by (simp add: rel)
    from decodeDevices_first_failure[OF this that(3), of post "[]"] that(1) show ?thesis
      by (simp add: fetch)
  qed
  have errs: "\<forall>pre td post devs err.
           tds = pre @ td # post \<and> list_all2 (decodesTo js tags) pre devs \<longrightarrow>
             (\<not> knownType tags td \<longrightarrow> fetchDeviceFile js tags fileData = Inl unknownDeviceType)
           \<and> (Type td = DeviceVFIO tags \<and> UnmarshalVFIO js (Data td) = Inl err
                \<longrightarrow> fetchDeviceFile js tags fileData = Inl err)
           \<and> (Type td = DeviceBlock tags \<and> UnmarshalBlock js (Data td) = Inl err
                \<longrightarrow> fetchDeviceFile js tags fileData = Inl err)
           \<and> (Type td = DeviceGeneric tags \<and> UnmarshalGeneric js (Data td) = Inl err
                \<longrightarrow> fetchDeviceFile js tags fileData = Inl err)"
  proof (intro allI impI conjI)
    fix pre td post devs err
    assume a: "tds = pre @ td # post \<and> list_all2 (decodesTo js tags) pre devs"
    {
      assume "\<not> knownType tags td"
      then have "decodeDevice js tags td = Inl unknownDeviceType"
        by (rule decodeDevice_errors(1)[OF dt])
      with a show "fetchDeviceFile js tags fileData = Inl unknownDeviceType"
        using first by blast
    }
    {
      assume "Type td = DeviceVFIO tags \<and> UnmarshalVFIO js (Data td) = Inl err"
      then have "decodeDevice js tags td = Inl err"
        using decodeDevice_errors(2)[OF dt] by blast
      with a show "fetchDeviceFile js tags fileData = Inl err"
        using first by blast
    }
    {
      assume "Type td = DeviceBlock tags \<and> UnmarshalBlock js (Data td) = Inl err"
      then have "decodeDevice js tags td = Inl err"
        using decodeDevice_errors(3)[OF dt] by blast
      with a show "fetchDeviceFile js tags fileData = Inl err"
        using first by blast
    }
    {
      assume "Type td = DeviceGeneric tags \<and> UnmarshalGeneric js (Data td) = Inl err"
      then have "decodeDevice js tags td = Inl err"
        using decodeDevice_errors(4)[OF dt] by blast
      with a show "fetchDeviceFile js tags fileData = Inl err"
        using first by blast
    }
  qed
  show ?thesis
  proof (intro conjI)
    show "\<forall>devs. fetchDeviceFile js tags fileData = Inr devs
            \<longleftrightarrow> list_all2 (decodesTo js tags) tds devs"
      by (rule iff)
    show "(\<exists>td \<in> set tds. \<not> knownType tags td)
           \<longrightarrow> (\<exists>err. fetchDeviceFile js tags fileData = Inl err)"
      using fails by blast
    show "\<forall>pre td post devs err.
           tds = pre @ td # post \<and> list_all2 (decodesTo js tags) pre devs \<longrightarrow>
             (\<not> knownType tags td \<longrightarrow> fetchDeviceFile js tags fileData = Inl unknownDeviceType)
           \<and> (Type td = DeviceVFIO tags \<and> UnmarshalVFIO js (Data td) = Inl err
                \<longrightarrow> fetchDeviceFile js tags fileData = Inl err)
           \<and> (Type td = DeviceBlock tags \<and> UnmarshalBlock js (Data td) = Inl err
                \<longrightarrow> fetchDeviceFile js tags fileData = Inl err)
           \<and> (Type td = DeviceGeneric tags \<and> UnmarshalGeneric js (Data td) = Inl err
                \<longrightarrow> fetchDeviceFile js tags fileData = Inl err)"
      by (rule errs)
  qed
qed

theorem fetchDeviceFile_dispatch_witness:
  "fetchDeviceFile exampleJSON exampleTypes ''[vfio={a};block={b};generic={c};]''
       = Inr [VFIODevice ''a'', BlockDevice ''b'', GenericDevice ''c'']
   \<and> fetchDeviceFile exampleJSON exampleTypes ''[vfio={a};bogus={x};block={b};]''
       = Inl unknownDeviceType
   \<and> fetchDeviceFile exampleJSON exampleTypes ''[vfio={a};generic=oops;bogus={x};]''
       = Inl SyntaxError"
proof -
  have dt: "distinct [DeviceVFIO exampleTypes, DeviceBlock exampleTypes, DeviceGeneric exampleTypes]"
    by code_simp
  have u1: "UnmarshalTyped exampleJSON ''[vfio={a};block={b};generic={c};]''
     = Inr [\<lparr>Type = ''vfio'', Data = ''{a}''\<rparr>, \<lparr>Type = ''block'', Data = ''{b}''\<rparr>,
            \<lparr>Type = ''generic'', Data = ''{c}''\<rparr>]"
    by code_simp
  have all: "list_all2 (decodesTo exampleJSON exampleTypes)
      [\<lparr>Type = ''vfio'', Data = ''{a}''\<rparr>, \<lparr>Type = ''block'', Data = ''{b}''\<rparr>,
       \<lparr>Type = ''generic'', Data = ''{c}''\<rparr>]
      [VFIODevice ''a'', BlockDevice ''b'', GenericDevice ''c'']"
    by code_simp
  from fetchDeviceFile_dispatch[OF u1 dt] all
  have good: "fetchDeviceFile exampleJSON exampleTypes ''[vfio={a};block={b};generic={c};]''
       = Inr [VFIODevice ''a'', BlockDevice ''b'', GenericDevice ''c'']"
    by blast
  have u2: "UnmarshalTyped exampleJSON ''[vfio={a};bogus={x};block={b};]''
     = Inr ([\<lparr>Type = ''vfio'', Data = ''{a}''\<rparr>] @ \<lparr>Type = ''bogus'', Data = ''{x}''\<rparr>
            # [\<lparr>Type = ''block'', Data = ''{b}''\<rparr>])"
    by code_simp
  have pre: "list_all2 (decodesTo exampleJSON exampleTypes)
      [\<lparr>Type = ''vfio'', Data = ''{a}''\<rparr>] [VFIODevice ''a'']"
    by code_simp
  have unk: "\<not> knownType exampleTypes \<lparr>Type = ''bogus'', Data = ''{x}''\<rparr>"
    by code_simp
  from fetchDeviceFile_dispatch[OF u2 dt] pre unk
  have bad: "fetchDeviceFile exampleJSON exampleTypes ''[vfio={a};bogus={x};block={b};]''
       = Inl unknownDeviceType"
    by blast
  have u3: "UnmarshalTyped exampleJSON ''[vfio={a};generic=oops;bogus={x};]''
     = Inr ([\<lparr>Type = ''vfio'', Data = ''{a}''\<rparr>] @ \<lparr>Type = ''generic'', Data = ''oops''\<rparr>
            # [\<lparr>Type = ''bogus'', Data = ''{x}''\<rparr>])"
    by code_simp
  have gen: "Type \<lparr>Type = ''generic'', Data = ''oops''\<rparr> = DeviceGeneric exampleTypes
      \<and> UnmarshalGeneric exampleJSON (Data \<lparr>Type = ''generic'', Data = ''oops''\<rparr>) = Inl SyntaxError"
    by code_simp
  from fetchDeviceFile_dispatch[OF u3 dt] pre gen
  have corrupt: "fetchDeviceFile exampleJSON exampleTypes ''[vfio={a};generic=oops;bogus={x};]''
       = Inl SyntaxError"
    by blast
  from good bad corrupt show ?thesis by blast
qed

subsection \<open>C6: a closed stdin handle\<close>

text \<open>
  C6: for every stdin stream handle, after a first successful Close the handle is
  closed, and every later Close or Write on that handle, whatever calls were made on
  any handle in between, fails with the stream-closed error and changes nothing.
\<close>

theorem stdin_closed_stays_closed:
  assumes "stdinStream_Close ag h w = (None, w1)"
  shows "(\<exists>p s. h = stdinStream p \<and> deref w1 p = Some s \<and> closed s)
     \<and> stdinStream_Close ag h (performAll ag w1 cs) = (Some streamClosed, performAll ag w1 cs)
     \<and> stdinStream_Write ag h data (performAll ag w1 cs)
         = ((0, Some streamClosed), performAll ag w1 cs)"
proof (cases h)
  case (stdinStream p)
  from assms stdinStream obtain s where s: "deref w1 p = Some (s\<lparr>closed := True\<rparr>)"
    using Close_success_closed by blast
  then have later: "deref (performAll ag w1 cs) p = Some (s\<lparr>closed := True\<rparr>)"
    by (simp add: deref_performAll_closed)
  show ?thesis using s later stdinStream by simp
qed

theorem stdin_closed_stays_closed_witness:
  "fst (stdinStream_Close (countingAgent 5) (stdin 0) exampleWorld) = None
   \<and> fst (stdinStream_Close (countingAgent 5) (stdin 0)
       (performAll (countingAgent 5)
          (snd (stdinStream_Close (countingAgent 5) (stdin 0) exampleWorld))
          [Write (stdin 0) ''ls'', NewIOStream ''s1'' ''c1'' ''p2'', ReadStdout (stdout 1) ''buf'']))
       = Some streamClosed
   \<and> fst (stdinStream_Write (countingAgent 5) (stdin 0) ''ls''
       (performAll (countingAgent 5)
          (snd (stdinStream_Close (countingAgent 5) (stdin 0) exampleWorld))
          [Write (stdin 0) ''ls'', NewIOStream ''s1'' ''c1'' ''p2'', ReadStdout (stdout 1) ''buf'']))
       = (0, Some streamClosed)"
proof -
  let ?r = "stdinStream_Close (countingAgent 5) (stdin 0) exampleWorld"
  have ok: "fst ?r = None"
    by (simp add: stdin_def exampleWorld_deref exampleWorld_guest countingAgent_def)
  then have st: "?r = (None, snd ?r)"
    by (simp add: prod_eq_iff)
  from stdin_closed_stays_closed[OF st,
      of "[Write (stdin 0) ''ls'', NewIOStream ''s1'' ''c1'' ''p2'', ReadStdout (stdout 1) ''buf'']"
         "''ls''"] ok
  show ?thesis by simp
qed

subsection \<open>C7: which kinds need a container id\<close>

text \<open>
  C7 as it is written: the lock, network, hypervisor and agent kinds never require a
  container id in any resource access, URI resolution included. The container-level
  entry points \<^verbatim>\<open>containerURI\<close> and \<^verbatim>\<open>storeContainerResource\<close> test the container id
  before they look at the kind, and reject an empty one for these kinds too.
\<close>

theorem container_id_counterexample:
  "containerURI ''s1'' [] lockFileType = Inl errNeedContainerID
   \<and> fst (storeContainerResource noFaults exampleJSON exampleTypes ''s1'' [] networkFileType
          (NetworkNamespace ''ns'') diskCreated) = Some errNeedContainerID"
  by (simp add: containerURI_def storeContainerResource_def)

text \<open>
  C7, amended: in \<^verbatim>\<open>resourceDir\<close>, \<^verbatim>\<open>resourceURI\<close>, \<^verbatim>\<open>commonResourceChecks\<close>,
  \<^verbatim>\<open>storeResource\<close> and \<^verbatim>\<open>fetchResource\<close>, the functions that take the caller's
  sandbox-level flag, a kind \<open>k\<close> among lock, network, hypervisor and agent never requires
  a container id: the result does not depend on the flag, and with a sandbox id and
  no container id the path resolves. Any other kind \<open>k'\<close> with an empty container id
  fails with the missing-container-id error when the flag is off, before the disk is
  touched, and does not when it is on. The container-level entry points
  \<^verbatim>\<open>containerURI\<close> and \<^verbatim>\<open>storeContainerResource\<close> require a container id for every
  kind. The root a kind lives under is fixed by the kind: the configuration root for
  config, the runtime root for the others.
\<close>

theorem container_id_requirement:
  assumes four: "k \<in> {lockFileType, networkFileType, hypervisorFileType, agentFileType}"
    and other: "k' \<notin> {lockFileType, networkFileType, hypervisorFileType, agentFileType}"
    and S: "S \<noteq> []"
  shows "resourceNeedsContainerID sb k = False
     \<and> resourceDir sb S C k = resourceDir True S C k
     \<and> resourceURI sb S C k = resourceURI True S C k
     \<and> commonResourceChecks sb S C k = commonResourceChecks True S C k
     \<and> storeResource flt js tags sb S C k v d = storeResource flt js tags True S C k v d
     \<and> fetchResource flt js tags sb S C k t d = fetchResource flt js tags True S C k t d
     \<and> (\<exists>fp dir. resourceURI sb S [] k = Inr (fp, dir))
     \<and> resourceDir False S [] k' = Inl errNeedContainerID
     \<and> resourceURI False S [] k' = Inl errNeedContainerID
     \<and> commonResourceChecks False S [] k' = Some errNeedContainerID
     \<and> storeResource flt js tags False S [] k' v d = (Some errNeedContainerID, d)
     \<and> fetchResource flt js tags False S [] k' t d = Inl errNeedContainerID
     \<and> resourceDir True S [] k' \<noteq> Inl errNeedContainerID
     \<and> commonResourceChecks True S [] k' \<noteq> Some errNeedContainerID
     \<and> containerURI S [] k = Inl errNeedContainerID
     \<and> storeContainerResource flt js tags S [] k v d = (Some errNeedContainerID, d)
     \<and> (\<forall>p k''. resourceDir sb S C k'' = Inr p \<longrightarrow>
           p = Join (if k'' = configFileType then configStoragePath else runStoragePath) [S, C])"
proof -
  note a = resourceNeedsContainerID_four[OF four, of sb] resourceDir_four[OF four, of sb S C]
    resourceURI_four[OF four, of sb S C] commonResourceChecks_four[OF four, of sb S C]
    storeResource_four[OF four, of flt js tags sb S C v d]
    fetchResource_four[OF four, of flt js tags sb S C t d]
    resourceURI_four_succeeds[OF four S, of sb]
  note b = needs_container_id[OF other S]
  note c = container_level_needs_id[OF S]
  have r: "\<forall>p k''. resourceDir sb S C k'' = Inr p \<longrightarrow>
           p = Join (if k'' = configFileType then configStoragePath else runStoragePath) [S, C]"
    using resourceDir_root by blast
  show ?thesis
    by (intro conjI) (rule a b c r)+
qed

theorem container_id_requirement_witness:
  "lockFileType \<in> {lockFileType, networkFileType, hypervisorFileType, agentFileType}
   \<and> stateFileType \<notin> {lockFileType, networkFileType, hypervisorFileType, agentFileType}
   \<and> resourceURI False ''s1'' [] lockFileType
       = Inr ([''run'', ''vc'', ''sbs'', ''s1'', ''lock''], [''run'', ''vc'', ''sbs'', ''s1''])
   \<and> resourceURI False ''s1'' [] stateFileType = Inl errNeedContainerID
   \<and> fetchResource noFaults exampleJSON exampleTypes False ''s1'' [] stateFileType StateT diskStored
       = Inl errNeedContainerID
   \<and> resourceDir True ''s1'' [] configFileType = Inr [''var'', ''lib'', ''vc'', ''sbs'', ''s1'']"
proof -
  have four: "lockFileType \<in> {lockFileType, networkFileType, hypervisorFileType, agentFileType}"
    by simp
  have other: "stateFileType \<notin> {lockFileType, networkFileType, hypervisorFileType, agentFileType}"
    by (simp add: fileTypes)
  have S: "''s1'' \<noteq> []"
    by simp
  have lock: "resourceURI True ''s1'' [] lockFileType
       = Inr ([''run'', ''vc'', ''sbs'', ''s1'', ''lock''], [''run'', ''vc'', ''sbs'', ''s1''])"
    by code_simp
  have cfg: "resourceDir True ''s1'' [] configFileType = Inr [''var'', ''lib'', ''vc'', ''sbs'', ''s1'']"
    by code_simp
  from container_id_requirement[OF four other S,
      of False "[]" noFaults exampleJSON exampleTypes "State ''running''" diskStored StateT]
    four other lock cfg
  show ?thesis by simp
qed

subsection \<open>C8: a failed write in a store\<close>

text \<open>
  C8 says that a store reports a failed write of the serialized bytes. \<^verbatim>\<open>storeFile\<close>
  calls \<^verbatim>\<open>f.Write(jsonOut)\<close> and drops what it returns: when the write of the state
  file fails, the store of the state returns no error and leaves the file empty. The
  device path, \<^verbatim>\<open>storeDeviceFile\<close>, tests the result of its write and reports the same
  failure.
\<close>

theorem storeFile_drops_write_error:
  "fst (storeResource (failing [FileWrite [''run'', ''vc'', ''sbs'', ''s1'', ''state.json'']])
          exampleJSON exampleTypes True ''s1'' [] stateFileType (State ''running'') diskCreated)
     = None
   \<and> snd (storeResource (failing [FileWrite [''run'', ''vc'', ''sbs'', ''s1'', ''state.json'']])
          exampleJSON exampleTypes True ''s1'' [] stateFileType (State ''running'') diskCreated)
        [''run'', ''vc'', ''sbs'', ''s1'', ''state.json''] = Some (File [])
   \<and> fst (storeResource (failing [FileWrite [''run'', ''vc'', ''sbs'', ''s1'', ''c1'', ''devices.json'']])
          exampleJSON exampleTypes False ''s1'' ''c1'' devicesFileType exampleDevices diskCreated)
     = Some (PathError EIO)"
  unfolding diskCreated_def by code_simp

subsection \<open>C9: the agent for an unknown agent type\<close>

text \<open>
  C9: \<^verbatim>\<open>newAgent\<close> returns an agent for every agent type; for every type other than
  noop, hyperstart and kata it is the no-op agent, neither an error nor nil, and so an
  agent on which every call of a method of the agent interface succeeds and leaves
  the guest as it is. \<^verbatim>\<open>String\<close> and \<^verbatim>\<open>newAgentConfig\<close> do not fail on such a type
  either (the empty string, a nil configuration); only \<^verbatim>\<open>AgentType.Set\<close> rejects it,
  with an error, and leaves the receiver as it was.
\<close>

theorem newAgent_unknown_is_noop:
  assumes "agentType \<notin> {NoopAgentType, HyperstartAgent, KataContainersAgent}"
  shows "newAgent agentType = noopAgent
     \<and> (\<forall>c g. agent_call hyperCall kataCall (newAgent agentType) c g = (None, g))
     \<and> AgentType_String agentType = []
     \<and> newAgentConfig decodeHyper decodeKata agentType cfg = NilConfig
     \<and> AgentType_Set t agentType = (Some (ErrorString (''Unknown agent type '' @ agentType)), t)"
  using assms
  by (simp add: newAgent_def AgentType_String_def newAgentConfig_def AgentType_Set_def
        NoopAgentType_def HyperstartAgent_def KataContainersAgent_def
        agent_call_def noopAgent_call_def)

text \<open>
  At the agent type \<^verbatim>\<open>firecracker\<close>, with agents for hyperstart and kata that refuse
  every call: starting and stopping the sandbox succeed and the guest stays at 7.
\<close>

theorem newAgent_unknown_is_noop_witness:
  "''firecracker'' \<notin> {NoopAgentType, HyperstartAgent, KataContainersAgent}
   \<and> newAgent ''firecracker'' = noopAgent
   \<and> agent_call (\<lambda>c g. (Some (ErrorString ''guest unreachable''), g))
        (\<lambda>c g. (Some (ErrorString ''guest unreachable''), g))
        (newAgent ''firecracker'') (StartSandbox ''s1'') (7::nat) = (None, 7)
   \<and> agent_call (\<lambda>c g. (Some (ErrorString ''guest unreachable''), g))
        (\<lambda>c g. (Some (ErrorString ''guest unreachable''), g))
        (newAgent ''firecracker'') (StopSandbox ''s1'') (7::nat) = (None, 7)
   \<and> AgentType_Set KataContainersAgent ''firecracker''
       = (Some (ErrorString ''Unknown agent type firecracker''), KataContainersAgent)"
proof -
  have h: "''firecracker'' \<notin> {NoopAgentType, HyperstartAgent, KataContainersAgent}"
    by (simp add: NoopAgentType_def HyperstartAgent_def KataContainersAgent_def)
  from newAgent_unknown_is_noop[OF h,
      of "\<lambda>c g. (Some (ErrorString ''guest unreachable''), g::nat)"
         "\<lambda>c g. (Some (ErrorString ''guest unreachable''), g::nat)"
         "Inr :: unit \<Rightarrow> error + unit" "Inr :: unit \<Rightarrow> error + unit" "()" KataContainersAgent] h
  show ?thesis
    by auto
qed

subsection \<open>C10: a Close that the agent refuses\<close>

text \<open>
  C10: for every stdin stream handle that is open, if the agent's
  \<^verbatim>\<open>closeProcessStdin\<close> fails, Close returns the agent's error and the handle's closed
  flag is unchanged: the \<open>iostream\<close> is as before, and a later Close or Write is not
  answered from the flag but passed to the agent again.
\<close>

theorem stdin_close_agent_failure:
  assumes "deref w p = Some s" and "\<not> closed s"
    and "closeProcessStdin ag (container s) (process s) (guest w) = (Some e, g')"
  shows "stdinStream_Close ag (stdin p) w = (Some e, w\<lparr>guest := g'\<rparr>)
     \<and> deref (w\<lparr>guest := g'\<rparr>) p = Some s
     \<and> fst (stdinStream_Close ag (stdin p) (w\<lparr>guest := g'\<rparr>))
         = fst (closeProcessStdin ag (container s) (process s) g')
     \<and> fst (stdinStream_Write ag (stdin p) data (w\<lparr>guest := g'\<rparr>))
         = fst (writeProcessStdin ag (container s) (process s) data g')"
  using assms by (simp add: stdin_def split: prod.splits)

theorem stdin_close_agent_failure_witness:
  "deref exampleWorld 0
     = Some \<lparr>sandbox = ''s1'', container = ''c1'', process = ''p1'', closed = False\<rparr>
   \<and> stdinStream_Close (countingAgent 0) (stdin 0) exampleWorld
       = (Some (ErrorString ''guest unreachable''), exampleWorld\<lparr>guest := 0\<rparr>)
   \<and> deref (exampleWorld\<lparr>guest := 0\<rparr>) 0
       = Some \<lparr>sandbox = ''s1'', container = ''c1'', process = ''p1'', closed = False\<rparr>"
proof -
  have c: "closeProcessStdin (countingAgent 0) ''c1'' ''p1'' (guest exampleWorld)
      = (Some (ErrorString ''guest unreachable''), 0)"
    by (simp add: countingAgent_def exampleWorld_def newIOStream_def)
  from stdin_close_agent_failure[OF exampleWorld_deref, of "countingAgent 0" _ 0] c
    exampleWorld_deref
  show ?thesis by simp
qed

end
